theory Spec2Isabelle
  imports Complex_Main
begin

section \<open>Inventory ledger (product service, Inventory model)\<close>

text \<open>
  The Sequelize model \<^verbatim>\<open>Inventory\<close> keeps one row per product. Its two counters are
  INTEGER columns, modelled as \<^typ>\<open>int\<close>. An instance method mutates the instance and
  ends with \<^verbatim>\<open>return this.save()\<close>; the model returns the saved instance. Persisting goes
  through the \<^verbatim>\<open>beforeSave\<close> hook, which recomputes \<^verbatim>\<open>inStock\<close>. Failures of the database
  itself are outside the model.

  The methods throw plain \<^verbatim>\<open>Error\<close> objects told apart by their message only; the
  constructors below stand for these messages:
  \<^item> \<open>InvalidAmount\<close>: the three "debe ser mayor que cero" messages (amount not positive);
  \<^item> \<open>InvalidState\<close>: "No hay suficiente cantidad reservada para reducir";
  \<^item> \<open>InsufficientStock\<close>: "No hay suficiente stock para reducir" and
    "No hay suficiente stock disponible para reservar".
\<close>

datatype inventory_error = InvalidAmount | InvalidState | InsufficientStock

record inventory =
  productId :: string
  quantity :: int
  reservedQuantity :: int
  inStock :: bool
  lowStockThreshold :: int
  lastRestockDate :: "int option"

definition beforeSave :: "inventory \<Rightarrow> inventory" where
  "beforeSave row = (if quantity row \<le> 0 then row\<lparr>inStock := False\<rparr> else row\<lparr>inStock := True\<rparr>)"

definition save :: "inventory \<Rightarrow> inventory" where
  "save row = beforeSave row"

definition getAvailableStock :: "inventory \<Rightarrow> int" where
  "getAvailableStock row = max 0 (quantity row - reservedQuantity row)"

definition isLowStock :: "inventory \<Rightarrow> bool" where
  "isLowStock row = (quantity row \<le> lowStockThreshold row)"

definition reduceStock :: "inventory \<Rightarrow> int \<Rightarrow> bool \<Rightarrow> inventory_error + inventory" where
  "reduceStock row amount isReserved =
     (if amount \<le> 0 then Inl InvalidAmount
      else if isReserved then
        (if reservedQuantity row < amount then Inl InvalidState
         else Inr (save (row\<lparr>reservedQuantity := reservedQuantity row - amount\<rparr>)))
      else
        (if quantity row < amount then Inl InsufficientStock
         else Inr (save (row\<lparr>quantity := quantity row - amount\<rparr>))))"

definition reserveStock :: "inventory \<Rightarrow> int \<Rightarrow> inventory_error + inventory" where
  "reserveStock row amount =
     (if amount \<le> 0 then Inl InvalidAmount
      else if getAvailableStock row < amount then Inl InsufficientStock
      else Inr (save (row\<lparr>reservedQuantity := reservedQuantity row + amount\<rparr>)))"

text \<open>\<^verbatim>\<open>addStock\<close> stamps \<^verbatim>\<open>lastRestockDate\<close> with the current time, passed as \<open>now\<close>.\<close>

definition addStock :: "inventory \<Rightarrow> int \<Rightarrow> int \<Rightarrow> inventory_error + inventory" where
  "addStock row amount now =
     (if amount \<le> 0 then Inl InvalidAmount
      else Inr (save (row\<lparr>quantity := quantity row + amount, lastRestockDate := Some now\<rparr>)))"

text \<open>
  The column validators of the model (\<^verbatim>\<open>validate: { min: 0 }\<close> on both counters).
\<close>

definition counters_valid :: "inventory \<Rightarrow> bool" where
  "counters_valid row = (0 \<le> quantity row \<and> 0 \<le> reservedQuantity row)"

section \<open>Order-event consumer of the product service\<close>

text \<open>
  The table behind \<^verbatim>\<open>Inventory.findOne({ where: { productId } })\<close> is a map from product
  id to row (\<^verbatim>\<open>productId\<close> is a unique column). A handler loads the row, calls the
  instance methods, and each successful method call persists the instance. A thrown
  error inside the per-item \<^verbatim>\<open>try\<close> block is logged and swallowed, so what was persisted
  before the throw stays.

  An event item is \<^verbatim>\<open>{ productId, quantity }\<close>. The payload is parsed JSON, so the
  \<^verbatim>\<open>items\<close> field may be missing or not iterable (\<open>None\<close>), and an entry of the array may
  be \<^verbatim>\<open>null\<close> (\<open>None\<close>): reading \<^verbatim>\<open>items.length\<close> or destructuring such an entry throws a
  \<^verbatim>\<open>TypeError\<close> outside the per-item \<^verbatim>\<open>try\<close>.
\<close>

type_synonym inventory_table = "string \<rightharpoonup> inventory"

record event_item =
  ei_productId :: string
  ei_quantity :: int

record event_data =
  ed_items :: "event_item option list option"
  ed_productId :: string
  ed_quantity :: int

text \<open>
  Errors that can reach the \<^verbatim>\<open>catch\<close> of \<^verbatim>\<open>handleMessage\<close>: the \<^verbatim>\<open>SyntaxError\<close> of
  \<^verbatim>\<open>JSON.parse\<close>, a \<^verbatim>\<open>TypeError\<close> from reading a missing part of the payload, and any
  other \<^verbatim>\<open>Error\<close> (with its message).
\<close>

datatype js_error = SyntaxError | TypeError | Error string

text \<open>One iteration of the loop of \<^verbatim>\<open>handleOrderCreated\<close> (and the body of \<^verbatim>\<open>handleOrderItemAdded\<close>).\<close>

definition reserveItem :: "string \<Rightarrow> int \<Rightarrow> inventory_table \<Rightarrow> inventory_table" where
  "reserveItem pid qty tbl =
     (case tbl pid of
        None \<Rightarrow> tbl
      | Some row \<Rightarrow>
          (case reserveStock row qty of
             Inl e \<Rightarrow> tbl
           | Inr row1 \<Rightarrow> tbl(pid \<mapsto> row1)))"

text \<open>
  One iteration of the loop of \<^verbatim>\<open>handleOrderPaid\<close>: release the reservation, then reduce
  the real stock, on the same instance. When the second call throws, the first one has
  already been saved.
\<close>

definition payItem :: "string \<Rightarrow> int \<Rightarrow> inventory_table \<Rightarrow> inventory_table" where
  "payItem pid qty tbl =
     (case tbl pid of
        None \<Rightarrow> tbl
      | Some row \<Rightarrow>
          (case reduceStock row qty True of
             Inl e \<Rightarrow> tbl
           | Inr row1 \<Rightarrow>
               (case reduceStock row1 qty False of
                  Inl e \<Rightarrow> tbl(pid \<mapsto> row1)
                | Inr row2 \<Rightarrow> tbl(pid \<mapsto> row2))))"

text \<open>One iteration of \<^verbatim>\<open>handleOrderCancelled\<close> (and the body of \<^verbatim>\<open>handleOrderItemRemoved\<close>).\<close>

definition releaseItem :: "string \<Rightarrow> int \<Rightarrow> inventory_table \<Rightarrow> inventory_table" where
  "releaseItem pid qty tbl =
     (case tbl pid of
        None \<Rightarrow> tbl
      | Some row \<Rightarrow>
          (case reduceStock row qty True of
             Inl e \<Rightarrow> tbl
           | Inr row1 \<Rightarrow> tbl(pid \<mapsto> row1)))"

text \<open>One iteration of \<^verbatim>\<open>handleOrderRefunded\<close>.\<close>

definition restockItem :: "int \<Rightarrow> string \<Rightarrow> int \<Rightarrow> inventory_table \<Rightarrow> inventory_table" where
  "restockItem now pid qty tbl =
     (case tbl pid of
        None \<Rightarrow> tbl
      | Some row \<Rightarrow>
          (case addStock row qty now of
             Inl e \<Rightarrow> tbl
           | Inr row1 \<Rightarrow> tbl(pid \<mapsto> row1)))"

text \<open>
  The \<^verbatim>\<open>for (const item of items)\<close> loop shared by the four list handlers: \<open>step\<close> is the
  body after the destructuring of the item. The result is the table reached and the
  error that escaped, if any.
\<close>

fun forEachItem ::
  "(string \<Rightarrow> int \<Rightarrow> inventory_table \<Rightarrow> inventory_table) \<Rightarrow> event_item option list \<Rightarrow>
   inventory_table \<Rightarrow> inventory_table \<times> js_error option" where
  "forEachItem step [] tbl = (tbl, None)"
| "forEachItem step (None # rest) tbl = (tbl, Some TypeError)"
| "forEachItem step (Some it # rest) tbl =
     forEachItem step rest (step (ei_productId it) (ei_quantity it) tbl)"

definition withItems ::
  "(string \<Rightarrow> int \<Rightarrow> inventory_table \<Rightarrow> inventory_table) \<Rightarrow> event_data option \<Rightarrow>
   inventory_table \<Rightarrow> inventory_table \<times> js_error option" where
  "withItems step data tbl =
     (case data of
        None \<Rightarrow> (tbl, Some TypeError)
      | Some d \<Rightarrow>
          (case ed_items d of
             None \<Rightarrow> (tbl, Some TypeError)
           | Some its \<Rightarrow> forEachItem step its tbl))"

definition handleOrderCreated ::
  "event_data option \<Rightarrow> inventory_table \<Rightarrow> inventory_table \<times> js_error option" where
  "handleOrderCreated data tbl = withItems reserveItem data tbl"

definition handleOrderPaid ::
  "event_data option \<Rightarrow> inventory_table \<Rightarrow> inventory_table \<times> js_error option" where
  "handleOrderPaid data tbl = withItems payItem data tbl"

definition handleOrderCancelled ::
  "event_data option \<Rightarrow> inventory_table \<Rightarrow> inventory_table \<times> js_error option" where
  "handleOrderCancelled data tbl = withItems releaseItem data tbl"

definition handleOrderRefunded ::
  "int \<Rightarrow> event_data option \<Rightarrow> inventory_table \<Rightarrow> inventory_table \<times> js_error option" where
  "handleOrderRefunded now data tbl = withItems (restockItem now) data tbl"

definition handleOrderItemAdded ::
  "event_data option \<Rightarrow> inventory_table \<Rightarrow> inventory_table \<times> js_error option" where
  "handleOrderItemAdded data tbl =
     (case data of
        None \<Rightarrow> (tbl, Some TypeError)
      | Some d \<Rightarrow> (reserveItem (ed_productId d) (ed_quantity d) tbl, None))"

definition handleOrderItemRemoved ::
  "event_data option \<Rightarrow> inventory_table \<Rightarrow> inventory_table \<times> js_error option" where
  "handleOrderItemRemoved data tbl =
     (case data of
        None \<Rightarrow> (tbl, Some TypeError)
      | Some d \<Rightarrow> (releaseItem (ed_productId d) (ed_quantity d) tbl, None))"

text \<open>The payload of an event that carries the item list \<open>its\<close> only.\<close>

definition itemsEvent :: "(string \<times> int) list \<Rightarrow> event_data option" where
  "itemsEvent its =
     Some \<lparr>ed_items = Some (map (\<lambda>(p, q). Some \<lparr>ei_productId = p, ei_quantity = q\<rparr>) its),
           ed_productId = [], ed_quantity = 0\<rparr>"


text \<open>
  \<^verbatim>\<open>handleMessage\<close>. The message body is a string; \<^verbatim>\<open>JSON.parse\<close> is a parameter that
  either throws (\<open>Malformed\<close>), returns \<^verbatim>\<open>null\<close> (\<open>JsonNull\<close>, on which the destructuring
  \<^verbatim>\<open>const { event, data } = content\<close> throws a \<^verbatim>\<open>TypeError\<close>), or returns a value with its
  \<^verbatim>\<open>event\<close> and \<^verbatim>\<open>data\<close> fields (an absent \<^verbatim>\<open>event\<close> is a string matching no case). The
  channel is the live channel the message arrived on; what the handler sends on it is
  returned as a list of actions. \<open>Nack r\<close> is \<^verbatim>\<open>channel.nack(msg, false, r)\<close>, with \<open>r\<close>
  the requeue flag.
\<close>

datatype json_message = Malformed | JsonNull | JsonObject string "event_data option"

datatype channel_action = Ack | Nack bool

definition dispatch ::
  "int \<Rightarrow> string \<Rightarrow> event_data option \<Rightarrow> inventory_table \<Rightarrow> inventory_table \<times> js_error option" where
  "dispatch now event data tbl =
     (if event = ''order.created'' then handleOrderCreated data tbl
      else if event = ''order.paid'' then handleOrderPaid data tbl
      else if event = ''order.cancelled'' then handleOrderCancelled data tbl
      else if event = ''order.refunded'' then handleOrderRefunded now data tbl
      else if event = ''order.item.added'' then handleOrderItemAdded data tbl
      else if event = ''order.item.removed'' then handleOrderItemRemoved data tbl
      else (tbl, None))"

text \<open>The body of the \<^verbatim>\<open>try\<close> block up to, not including, \<^verbatim>\<open>channel.ack(msg)\<close>.\<close>

definition tryProcess ::
  "(string \<Rightarrow> json_message) \<Rightarrow> int \<Rightarrow> string \<Rightarrow> inventory_table \<Rightarrow>
   inventory_table \<times> js_error option" where
  "tryProcess JSON_parse now body tbl =
     (case JSON_parse body of
        Malformed \<Rightarrow> (tbl, Some SyntaxError)
      | JsonNull \<Rightarrow> (tbl, Some TypeError)
      | JsonObject event data \<Rightarrow> dispatch now event data tbl)"

text \<open>The \<^verbatim>\<open>catch\<close> block.\<close>

definition onError :: "js_error \<Rightarrow> channel_action" where
  "onError e = (if e = SyntaxError then Nack False else Nack True)"

definition handleMessage ::
  "(string \<Rightarrow> json_message) \<Rightarrow> int \<Rightarrow> string option \<Rightarrow> inventory_table \<Rightarrow>
   inventory_table \<times> channel_action list" where
  "handleMessage JSON_parse now msg tbl =
     (case msg of
        None \<Rightarrow> (tbl, [])
      | Some body \<Rightarrow>
          (case tryProcess JSON_parse now body tbl of
             (tbl', None) \<Rightarrow> (tbl', [Ack])
           | (tbl', Some e) \<Rightarrow> (tbl', [onError e])))"


section \<open>Order aggregate (order service, Order model)\<close>

text \<open>
  The Mongoose document of an order, restricted to the fields its methods read or
  write. Amounts are JavaScript numbers, modelled as exact rationals; quantities are
  integers; a \<^verbatim>\<open>Date\<close> is a time stamp in milliseconds and an unset one is \<open>None\<close>.
  \<^verbatim>\<open>salePrice\<close> has no default in the schema, so it may be undefined (\<open>None\<close>);
  \<^verbatim>\<open>taxes\<close> and \<^verbatim>\<open>discount\<close> default to 0 and are always numbers.
  \<^verbatim>\<open>adminNotes\<close> is a text of lines joined by newlines; it is kept as the list of its
  lines, each line \<^verbatim>\<open>time - prev -> new: notes\<close> as the tuple of its parts.
\<close>

datatype order_status =
  Pending | Processing | PaymentPending | Paid | Shipped | Delivered | Completed
  | Cancelled | Refunded | Failed | OnHold

datatype payment_status =
  PayPending | PayProcessing | PayCompleted | PayFailed | PayRefunded | PayCancelled

datatype shipping_status =
  ShipPending | ShipProcessing | ShipShipped | ShipDelivered | ShipReturned | ShipCancelled

datatype discount_type = Percentage | FixedAmount | FreeShipping

record order_item =
  item_productId :: string
  item_price :: rat
  item_salePrice :: "rat option"
  item_quantity :: int
  item_subtotal :: rat
  item_taxes :: rat
  item_discount :: rat
  item_total :: rat

record payment =
  pay_method :: string
  pay_transactionId :: "string option"
  pay_amount :: rat
  pay_status :: payment_status
  paidAt :: "int option"

record shipping =
  ship_method :: string
  ship_carrier :: "string option"
  ship_trackingNumber :: "string option"
  ship_cost :: rat
  ship_status :: shipping_status
  shippedAt :: "int option"
  deliveredAt :: "int option"

text \<open>The type of a discount may be missing or none of the three known ones (\<open>None\<close>).\<close>

record discount =
  disc_code :: string
  disc_type :: "discount_type option"
  disc_amount :: rat

record order =
  orderId :: string
  userId :: string
  status :: order_status
  items :: "order_item list"
  subtotal :: rat
  taxAmount :: rat
  discountAmount :: rat
  shippingAmount :: rat
  total :: rat
  payment :: payment
  shipping :: shipping
  discounts :: "discount list"
  adminNotes :: "(int \<times> order_status \<times> order_status \<times> string) list"
  completedAt :: "int option"
  cancelledAt :: "int option"

text \<open>
  The partial objects \<^verbatim>\<open>paymentInfo\<close> and \<^verbatim>\<open>shippingInfo\<close> of a request body: a field that
  is present overrides the stored one in \<^verbatim>\<open>{ ...this.payment, ...paymentInfo }\<close>.
\<close>

record payment_info =
  pi_method :: "string option"
  pi_transactionId :: "string option"
  pi_amount :: "rat option"
  pi_status :: "payment_status option"
  pi_paidAt :: "int option"

record shipping_info =
  si_method :: "string option"
  si_carrier :: "string option"
  si_trackingNumber :: "string option"
  si_cost :: "rat option"
  si_status :: "shipping_status option"
  si_shippedAt :: "int option"
  si_deliveredAt :: "int option"

text \<open>\<^verbatim>\<open>item.salePrice > 0 ? item.salePrice : item.price\<close>; the comparison is false on undefined.\<close>

definition effectivePrice :: "order_item \<Rightarrow> rat" where
  "effectivePrice it =
     (case item_salePrice it of
        None \<Rightarrow> item_price it
      | Some s \<Rightarrow> if s > 0 then s else item_price it)"

text \<open>The body of the \<^verbatim>\<open>forEach\<close> of \<^verbatim>\<open>calculateTotals\<close>, as far as it writes the item.\<close>

definition recalcItem :: "order_item \<Rightarrow> order_item" where
  "recalcItem it =
     (let itemSubtotal = effectivePrice it * of_int (item_quantity it)
      in it\<lparr>item_subtotal := itemSubtotal,
            item_total := itemSubtotal + item_taxes it - item_discount it\<rparr>)"

definition calculateTotals :: "order \<Rightarrow> order" where
  "calculateTotals ord =
     (let its = map recalcItem (items ord);
          st = foldl (\<lambda>acc it. acc + item_subtotal it) 0 its;
          tx = foldl (\<lambda>acc it. acc + item_taxes it) 0 its
      in ord\<lparr>items := its, subtotal := st, taxAmount := tx,
              total := st + tx - discountAmount ord + shippingAmount ord\<rparr>)"

text \<open>
  \<^verbatim>\<open>new Date()\<close> is the parameter \<open>now\<close>; \<^verbatim>\<open>if (notes)\<close> holds for a non-empty string.
\<close>

definition updateStatus :: "order_status \<Rightarrow> string \<Rightarrow> int \<Rightarrow> order \<Rightarrow> order" where
  "updateStatus newStatus notes now ord =
     (let prevStatus = status ord;
          ord1 = ord\<lparr>status := newStatus\<rparr>;
          ord2 =
            (if newStatus = Completed \<and> completedAt ord1 = None
               then ord1\<lparr>completedAt := Some now\<rparr>
             else if newStatus = Cancelled \<and> cancelledAt ord1 = None
               then ord1\<lparr>cancelledAt := Some now\<rparr>
             else if newStatus = Shipped \<and> shippedAt (shipping ord1) = None
               then ord1\<lparr>shipping := (shipping ord1)\<lparr>shippedAt := Some now\<rparr>\<rparr>
             else if newStatus = Delivered \<and> deliveredAt (shipping ord1) = None
               then ord1\<lparr>shipping := (shipping ord1)\<lparr>deliveredAt := Some now\<rparr>\<rparr>
             else if newStatus = Paid \<and> paidAt (payment ord1) = None
               then ord1\<lparr>payment := (payment ord1)\<lparr>paidAt := Some now\<rparr>\<rparr>
             else ord1)
      in if notes \<noteq> []
           then ord2\<lparr>adminNotes := adminNotes ord2 @ [(now, prevStatus, newStatus, notes)]\<rparr>
         else ord2)"

text \<open>\<^verbatim>\<open>Array.prototype.findIndex\<close>: the first index whose element satisfies \<open>p\<close>; \<open>None\<close> is -1.\<close>

fun findIndex :: "('a \<Rightarrow> bool) \<Rightarrow> 'a list \<Rightarrow> nat option" where
  "findIndex p [] = None"
| "findIndex p (x # xs) = (if p x then Some 0 else map_option Suc (findIndex p xs))"

text \<open>The update of an item already in the order, in \<^verbatim>\<open>addItem\<close>; it uses \<^verbatim>\<open>price\<close>.\<close>

definition bumpItem :: "int \<Rightarrow> order_item \<Rightarrow> order_item" where
  "bumpItem n it =
     (let it1 = it\<lparr>item_quantity := item_quantity it + n\<rparr>;
          it2 = it1\<lparr>item_subtotal := item_price it1 * of_int (item_quantity it1)\<rparr>
      in it2\<lparr>item_total := item_subtotal it2 + item_taxes it2 - item_discount it2\<rparr>)"

definition addItem :: "order_item \<Rightarrow> order \<Rightarrow> order" where
  "addItem item ord =
     calculateTotals
       (case findIndex (\<lambda>i. item_productId i = item_productId item) (items ord) of
          Some k \<Rightarrow> ord\<lparr>items := (items ord)[k := bumpItem (item_quantity item) (items ord ! k)]\<rparr>
        | None \<Rightarrow>
            ord\<lparr>items := items ord @
              [item\<lparr>item_subtotal := item_price item * of_int (item_quantity item),
                    item_total := item_price item * of_int (item_quantity item)
                                  + item_taxes item - item_discount item\<rparr>]\<rparr>)"

text \<open>\<^verbatim>\<open>this.items.splice(itemIndex, 1)\<close> deletes the element at that index.\<close>

definition removeItem :: "string \<Rightarrow> order \<Rightarrow> order" where
  "removeItem pid ord =
     (case findIndex (\<lambda>it. item_productId it = pid) (items ord) of
        Some k \<Rightarrow> calculateTotals (ord\<lparr>items := take k (items ord) @ drop (Suc k) (items ord)\<rparr>)
      | None \<Rightarrow> ord)"

definition applyDiscount :: "discount \<Rightarrow> order \<Rightarrow> order" where
  "applyDiscount d ord =
     (let ord1 = ord\<lparr>discounts := discounts ord @ [d]\<rparr>;
          ord2 =
            (case disc_type d of
               Some Percentage \<Rightarrow>
                 ord1\<lparr>discountAmount := discountAmount ord1 + (subtotal ord1 * disc_amount d) / 100\<rparr>
             | Some FixedAmount \<Rightarrow>
                 ord1\<lparr>discountAmount := discountAmount ord1 + disc_amount d\<rparr>
             | Some FreeShipping \<Rightarrow>
                 ord1\<lparr>discountAmount := discountAmount ord1 + shippingAmount ord1,
                      shippingAmount := 0\<rparr>
             | None \<Rightarrow> ord1)
      in ord2\<lparr>total := subtotal ord2 + taxAmount ord2 - discountAmount ord2 + shippingAmount ord2\<rparr>)"

definition override :: "'a \<Rightarrow> 'a option \<Rightarrow> 'a" where
  "override old new = (case new of None \<Rightarrow> old | Some v \<Rightarrow> v)"

definition overrideOpt :: "'a option \<Rightarrow> 'a option \<Rightarrow> 'a option" where
  "overrideOpt old new = (case new of None \<Rightarrow> old | Some v \<Rightarrow> Some v)"

definition mergePayment :: "payment \<Rightarrow> payment_info \<Rightarrow> payment" where
  "mergePayment p i =
     \<lparr>pay_method = override (pay_method p) (pi_method i),
      pay_transactionId = overrideOpt (pay_transactionId p) (pi_transactionId i),
      pay_amount = override (pay_amount p) (pi_amount i),
      pay_status = override (pay_status p) (pi_status i),
      paidAt = overrideOpt (paidAt p) (pi_paidAt i)\<rparr>"

definition mergeShipping :: "shipping \<Rightarrow> shipping_info \<Rightarrow> shipping" where
  "mergeShipping s i =
     \<lparr>ship_method = override (ship_method s) (si_method i),
      ship_carrier = overrideOpt (ship_carrier s) (si_carrier i),
      ship_trackingNumber = overrideOpt (ship_trackingNumber s) (si_trackingNumber i),
      ship_cost = override (ship_cost s) (si_cost i),
      ship_status = override (ship_status s) (si_status i),
      shippedAt = overrideOpt (shippedAt s) (si_shippedAt i),
      deliveredAt = overrideOpt (deliveredAt s) (si_deliveredAt i)\<rparr>"

definition updatePayment :: "payment_info \<Rightarrow> int \<Rightarrow> order \<Rightarrow> order" where
  "updatePayment paymentInfo now ord =
     (let ord1 = ord\<lparr>payment := mergePayment (payment ord) paymentInfo\<rparr>
      in if pi_status paymentInfo = Some PayCompleted \<and> status ord1 = PaymentPending
           then updateStatus Paid ''Pago recibido y confirmado'' now ord1
         else ord1)"

definition updateShipping :: "shipping_info \<Rightarrow> int \<Rightarrow> order \<Rightarrow> order" where
  "updateShipping shippingInfo now ord =
     (let ord1 = ord\<lparr>shipping := mergeShipping (shipping ord) shippingInfo\<rparr>
      in if si_status shippingInfo = Some ShipShipped \<and> status ord1 = Processing
           then updateStatus Shipped ''Orden enviada'' now ord1
         else if si_status shippingInfo = Some ShipDelivered \<and> status ord1 = Shipped
           then updateStatus Delivered ''Orden entregada'' now ord1
         else ord1)"

text \<open>The invariant of the monetary fields.\<close>

definition totals_consistent :: "order \<Rightarrow> bool" where
  "totals_consistent ord =
     (total ord = subtotal ord + taxAmount ord - discountAmount ord + shippingAmount ord)"

text \<open>The mutating operations of the aggregate, with their arguments, and a run of them.\<close>

datatype order_op =
  CalculateTotals
  | AddItem order_item
  | RemoveItem string
  | ApplyDiscount discount
  | UpdateStatus order_status string
  | UpdatePayment payment_info
  | UpdateShipping shipping_info

fun applyOp :: "int \<Rightarrow> order_op \<Rightarrow> order \<Rightarrow> order" where
  "applyOp now CalculateTotals ord = calculateTotals ord"
| "applyOp now (AddItem item) ord = addItem item ord"
| "applyOp now (RemoveItem pid) ord = removeItem pid ord"
| "applyOp now (ApplyDiscount d) ord = applyDiscount d ord"
| "applyOp now (UpdateStatus s notes) ord = updateStatus s notes now ord"
| "applyOp now (UpdatePayment i) ord = updatePayment i now ord"
| "applyOp now (UpdateShipping i) ord = updateShipping i now ord"


text \<open>A run of operations, each with the time at which it is carried out.\<close>

fun runOps :: "(int \<times> order_op) list \<Rightarrow> order \<Rightarrow> order" where
  "runOps [] ord = ord"
| "runOps ((now, op) # rest) ord = runOps rest (applyOp now op ord)"

section \<open>Order controller (order service)\<close>

text \<open>
  The controller functions work on the collection of orders, a map from order id to
  document (\<^verbatim>\<open>Order.findById\<close>), and publish events, collected in an outbox. A call
  either passes an \<^verbatim>\<open>AppError\<close> (message and HTTP status code) to \<^verbatim>\<open>next\<close>, the result
  \<open>Inl\<close>, or answers 200 with the order, the result \<open>Inr\<close>; the state after the call is
  returned with it. Messages are written without their accents. Saving the document
  and publishing the event are taken to succeed.
\<close>

datatype app_error = AppError string nat

record request_user =
  user_id :: string
  user_role :: string

record published_event =
  pe_routingKey :: string
  pe_orderId :: string
  pe_items :: "(string \<times> int) list"

record service_state =
  orders :: "string \<rightharpoonup> order"
  outbox :: "published_event list"

record product_info =
  prod_price :: rat
  prod_salePrice :: "rat option"

text \<open>
  What \<^verbatim>\<open>createOrder\<close> builds from the validated items (\<^verbatim>\<open>new Order({...})\<close>, then
  \<^verbatim>\<open>calculateTotals\<close>, the payment amount and the initial status), before it saves.
\<close>

definition newOrder ::
  "string \<Rightarrow> string \<Rightarrow> order_item list \<Rightarrow> payment option \<Rightarrow> shipping option \<Rightarrow> order" where
  "newOrder oid uid validatedItems pay ship =
     \<lparr>orderId = oid, userId = uid, status = Pending, items = validatedItems,
      subtotal = 0, taxAmount = 0, discountAmount = 0,
      shippingAmount = (case ship of Some s \<Rightarrow> ship_cost s | None \<Rightarrow> 0),
      total = 0,
      payment = (case pay of
                   Some p \<Rightarrow> p
                 | None \<Rightarrow> \<lparr>pay_method = ''pending'', pay_transactionId = None, pay_amount = 0,
                             pay_status = PayPending, paidAt = None\<rparr>),
      shipping = (case ship of
                    Some s \<Rightarrow> s
                  | None \<Rightarrow> \<lparr>ship_method = ''standard'', ship_carrier = None,
                              ship_trackingNumber = None, ship_cost = 0,
                              ship_status = ShipPending, shippedAt = None, deliveredAt = None\<rparr>),
      discounts = [], adminNotes = [], completedAt = None, cancelledAt = None\<rparr>"

definition buildOrder ::
  "string \<Rightarrow> string \<Rightarrow> order_item list \<Rightarrow> payment option \<Rightarrow> shipping option \<Rightarrow> order" where
  "buildOrder oid uid validatedItems pay ship =
     (let ord = calculateTotals (newOrder oid uid validatedItems pay ship);
          ord1 = ord\<lparr>payment := (payment ord)\<lparr>pay_amount := total ord\<rparr>\<rparr>;
          initialStatus =
            (case pay of
               Some p \<Rightarrow> if pay_method p = ''credit_card'' then PaymentPending else Pending
             | None \<Rightarrow> Pending)
      in ord1\<lparr>status := initialStatus\<rparr>)"

definition itemRefs :: "order \<Rightarrow> (string \<times> int) list" where
  "itemRefs ord = map (\<lambda>it. (item_productId it, item_quantity it)) (items ord)"

definition isAdmin :: "request_user \<Rightarrow> bool" where
  "isAdmin user = (user_role user = ''admin'')"

definition isOwner :: "request_user \<Rightarrow> order \<Rightarrow> bool" where
  "isOwner user ord = (user_id user = userId ord)"

text \<open>The status check shared by \<^verbatim>\<open>addOrderItem\<close>, \<^verbatim>\<open>removeOrderItem\<close> and \<^verbatim>\<open>applyDiscount\<close>.\<close>

definition contentLocked :: "order \<Rightarrow> bool" where
  "contentLocked ord = (status ord \<in> set [Shipped, Delivered, Completed, Cancelled, Refunded])"

definition addOrderItem ::
  "(string \<Rightarrow> app_error + product_info) \<Rightarrow> request_user \<Rightarrow> string \<Rightarrow> string \<Rightarrow> int \<Rightarrow>
   service_state \<Rightarrow> service_state \<times> (app_error + order)" where
  "addOrderItem getProductInfo user oid pid qty st =
     (if pid = [] \<or> qty = 0 \<or> qty \<le> 0
        then (st, Inl (AppError ''Se requiere ID de producto y cantidad valida'' 400))
      else
        (case orders st oid of
           None \<Rightarrow> (st, Inl (AppError ''Orden no encontrada'' 404))
         | Some ord \<Rightarrow>
             (if contentLocked ord
                then (st, Inl (AppError ''No se puede modificar una orden en este estado'' 400))
              else if \<not> isAdmin user \<and> \<not> isOwner user ord
                then (st, Inl (AppError ''No tienes permiso para modificar esta orden'' 403))
              else
                (case getProductInfo pid of
                   Inl e \<Rightarrow> (st, Inl e)
                 | Inr productInfo \<Rightarrow>
                     (let newItem =
                            \<lparr>item_productId = pid, item_price = prod_price productInfo,
                             item_salePrice =
                               Some (case prod_salePrice productInfo of None \<Rightarrow> 0 | Some s \<Rightarrow> s),
                             item_quantity = qty, item_subtotal = 0, item_taxes = 0,
                             item_discount = 0, item_total = 0\<rparr>;
                          ord' = addItem newItem ord
                      in (st\<lparr>orders := (orders st)(oid \<mapsto> ord'),
                             outbox := outbox st @
                               [\<lparr>pe_routingKey = ''order.item.added'', pe_orderId = oid,
                                 pe_items = [(pid, qty)]\<rparr>]\<rparr>, Inr ord'))))))"

definition removeOrderItem ::
  "request_user \<Rightarrow> string \<Rightarrow> string \<Rightarrow> service_state \<Rightarrow> service_state \<times> (app_error + order)" where
  "removeOrderItem user oid pid st =
     (case orders st oid of
        None \<Rightarrow> (st, Inl (AppError ''Orden no encontrada'' 404))
      | Some ord \<Rightarrow>
          (if contentLocked ord
             then (st, Inl (AppError ''No se puede modificar una orden en este estado'' 400))
           else if \<not> isAdmin user \<and> \<not> isOwner user ord
             then (st, Inl (AppError ''No tienes permiso para modificar esta orden'' 403))
           else
             (case find (\<lambda>it. item_productId it = pid) (items ord) of
                None \<Rightarrow> (st, Inl (AppError ''Producto no encontrado en la orden'' 404))
              | Some item \<Rightarrow>
                  (let qty = item_quantity item;
                       ord' = removeItem pid ord
                   in (st\<lparr>orders := (orders st)(oid \<mapsto> ord'),
                          outbox := outbox st @
                            [\<lparr>pe_routingKey = ''order.item.removed'', pe_orderId = oid,
                              pe_items = [(pid, qty)]\<rparr>]\<rparr>, Inr ord')))))"

text \<open>The controller \<^verbatim>\<open>applyDiscount\<close>; every code stands for a 10 percent discount.\<close>

definition applyDiscount_controller ::
  "request_user \<Rightarrow> string \<Rightarrow> string \<Rightarrow> service_state \<Rightarrow> service_state \<times> (app_error + order)" where
  "applyDiscount_controller user oid code st =
     (if code = [] then (st, Inl (AppError ''Se requiere codigo de descuento'' 400))
      else
        (case orders st oid of
           None \<Rightarrow> (st, Inl (AppError ''Orden no encontrada'' 404))
         | Some ord \<Rightarrow>
             (if contentLocked ord
                then (st, Inl (AppError ''No se puede modificar una orden en este estado'' 400))
              else if \<not> isAdmin user \<and> \<not> isOwner user ord
                then (st, Inl (AppError ''No tienes permiso para modificar esta orden'' 403))
              else
                (let d = \<lparr>disc_code = code, disc_type = Some Percentage, disc_amount = 10\<rparr>;
                     ord' = applyDiscount d ord
                 in (st\<lparr>orders := (orders st)(oid \<mapsto> ord')\<rparr>, Inr ord')))))"

definition cancelOrder ::
  "int \<Rightarrow> request_user \<Rightarrow> string \<Rightarrow> string \<Rightarrow> service_state \<Rightarrow>
   service_state \<times> (app_error + order)" where
  "cancelOrder now user oid reason st =
     (case orders st oid of
        None \<Rightarrow> (st, Inl (AppError ''Orden no encontrada'' 404))
      | Some ord \<Rightarrow>
          (if status ord \<in> set [Delivered, Completed, Cancelled, Refunded]
             then (st, Inl (AppError ''Esta orden no puede ser cancelada'' 400))
           else if \<not> isAdmin user \<and> \<not> isOwner user ord
             then (st, Inl (AppError ''No tienes permiso para cancelar esta orden'' 403))
           else if \<not> isAdmin user \<and> status ord \<notin> set [Pending, PaymentPending]
             then (st, Inl (AppError ''No puedes cancelar una orden en este estado'' 403))
           else
             (let ord' = updateStatus Cancelled
                           (if reason = [] then ''Cancelado por el usuario/administrador'' else reason)
                           now ord
              in (st\<lparr>orders := (orders st)(oid \<mapsto> ord'),
                     outbox := outbox st @
                       [\<lparr>pe_routingKey = ''order.cancelled'', pe_orderId = oid,
                         pe_items = itemRefs ord'\<rparr>]\<rparr>, Inr ord'))))"

text \<open>
  \<^verbatim>\<open>updateOrderStatus\<close>, the general change of status. The status of the request is a
  string; one outside \<^verbatim>\<open>validStatuses\<close> is \<open>None\<close>.
\<close>

definition updateOrderStatus ::
  "int \<Rightarrow> request_user \<Rightarrow> string \<Rightarrow> order_status option \<Rightarrow> string \<Rightarrow> service_state \<Rightarrow>
   service_state \<times> (app_error + order)" where
  "updateOrderStatus now user oid newStatus notes st =
     (case newStatus of
        None \<Rightarrow> (st, Inl (AppError ''Estado de orden no valido'' 400))
      | Some s \<Rightarrow>
          (case orders st oid of
             None \<Rightarrow> (st, Inl (AppError ''Orden no encontrada'' 404))
           | Some ord \<Rightarrow>
               (if user_role user \<noteq> ''admin''
                  then (st, Inl (AppError ''No tienes permiso para actualizar esta orden'' 403))
                else
                  (let ord' = updateStatus s notes now ord;
                       updated = \<lparr>pe_routingKey = ''order.status_updated'', pe_orderId = oid,
                                  pe_items = []\<rparr>;
                       specific =
                         (if s = Paid
                            then [\<lparr>pe_routingKey = ''order.paid'', pe_orderId = oid,
                                   pe_items = itemRefs ord'\<rparr>]
                          else if s = Cancelled
                            then [\<lparr>pe_routingKey = ''order.cancelled'', pe_orderId = oid,
                                   pe_items = itemRefs ord'\<rparr>]
                          else [])
                   in (st\<lparr>orders := (orders st)(oid \<mapsto> ord'),
                          outbox := outbox st @ [updated] @ specific\<rparr>, Inr ord')))))"

text \<open>Who passes the checks of \<^verbatim>\<open>cancelOrder\<close>, for an order that exists.\<close>

definition mayCancel :: "request_user \<Rightarrow> order \<Rightarrow> bool" where
  "mayCancel user ord =
     (status ord \<notin> set [Delivered, Completed, Cancelled, Refunded]
      \<and> (isAdmin user \<or> (isOwner user ord \<and> status ord \<in> set [Pending, PaymentPending])))"

section \<open>Circuit breaker (shared library)\<close>

text \<open>
  The class \<^verbatim>\<open>CircuitBreaker\<close>. Counters, thresholds and times are JavaScript numbers
  holding integers; \<^verbatim>\<open>lastFailureTime\<close> is \<^verbatim>\<open>null\<close> (\<open>None\<close>) or a reading of
  \<^verbatim>\<open>Date.now()\<close>. What the wrapped function can throw: an error object with its message
  (\<open>RequestError\<close>), or \<^verbatim>\<open>null\<close>/\<^verbatim>\<open>undefined\<close> (\<open>NullError\<close>); the breaker itself raises the
  time-out error of \<^verbatim>\<open>_executeWithTimeout\<close> and the \<^verbatim>\<open>ServiceError\<close> of an open circuit.
  \<open>MessageTypeError\<close> is the \<^verbatim>\<open>TypeError\<close> of reading \<^verbatim>\<open>error.message\<close> on \<^verbatim>\<open>null\<close> or
  \<^verbatim>\<open>undefined\<close>, in the log line of \<^verbatim>\<open>_handleFailure\<close>.
\<close>

datatype CircuitState = CLOSED | OPEN | HALF_OPEN

datatype cb_error =
  RequestError string | NullError | TimeoutError | OpenCircuitError | MessageTypeError

record 'v circuit_breaker =
  state :: CircuitState
  failureThreshold :: int
  failureCount :: int
  resetTimeout :: int
  lastFailureTime :: "int option"
  successThreshold :: int
  successCount :: int
  timeout :: int
  fallbackFn :: "(cb_error \<Rightarrow> cb_error + 'v) option"
  isFailure :: "cb_error \<Rightarrow> bool"

text \<open>The options of the constructor; \<^verbatim>\<open>options.x || d\<close> takes \<open>d\<close> when \<open>x\<close> is absent or 0.\<close>

record 'v breaker_options =
  opt_failureThreshold :: "int option"
  opt_resetTimeout :: "int option"
  opt_successThreshold :: "int option"
  opt_timeout :: "int option"
  opt_fallback :: "(cb_error \<Rightarrow> cb_error + 'v) option"
  opt_isFailure :: "(cb_error \<Rightarrow> bool) option"

definition orDefault :: "int option \<Rightarrow> int \<Rightarrow> int" where
  "orDefault x d = (case x of None \<Rightarrow> d | Some n \<Rightarrow> if n = 0 then d else n)"

definition defaultIsFailure :: "cb_error \<Rightarrow> bool" where
  "defaultIsFailure error = (error \<noteq> NullError)"

definition newCircuitBreaker :: "'v breaker_options \<Rightarrow> 'v circuit_breaker" where
  "newCircuitBreaker options =
     \<lparr>state = CLOSED,
      failureThreshold = orDefault (opt_failureThreshold options) 5,
      failureCount = 0,
      resetTimeout = orDefault (opt_resetTimeout options) 30000,
      lastFailureTime = None,
      successThreshold = orDefault (opt_successThreshold options) 2,
      successCount = 0,
      timeout = orDefault (opt_timeout options) 10000,
      fallbackFn = opt_fallback options,
      isFailure = (case opt_isFailure options of None \<Rightarrow> defaultIsFailure | Some f \<Rightarrow> f)\<rparr>"

definition toOpen :: "int \<Rightarrow> 'v circuit_breaker \<Rightarrow> 'v circuit_breaker" where
  "toOpen now b = b\<lparr>state := OPEN, failureCount := 0, successCount := 0, lastFailureTime := Some now\<rparr>"

definition toHalfOpen :: "'v circuit_breaker \<Rightarrow> 'v circuit_breaker" where
  "toHalfOpen b = b\<lparr>state := HALF_OPEN, failureCount := 0, successCount := 0\<rparr>"

definition toClose :: "'v circuit_breaker \<Rightarrow> 'v circuit_breaker" where
  "toClose b = b\<lparr>state := CLOSED, failureCount := 0, successCount := 0, lastFailureTime := None\<rparr>"

definition handleSuccess :: "'v circuit_breaker \<Rightarrow> 'v circuit_breaker" where
  "handleSuccess b =
     (if state b = HALF_OPEN then
        (let b1 = b\<lparr>successCount := successCount b + 1\<rparr>
         in if successCount b1 \<ge> successThreshold b1 then toClose b1 else b1)
      else if state b = CLOSED then b\<lparr>failureCount := 0\<rparr>
      else b)"

text \<open>
  The readings of \<^verbatim>\<open>Date.now()\<close> during one call of \<^verbatim>\<open>fire\<close>: at the check of the open
  circuit, in \<^verbatim>\<open>_handleFailure\<close>, and in \<^verbatim>\<open>_toOpen\<close>.
\<close>

record clock =
  t_fire :: int
  t_fail :: int
  t_open :: int

text \<open>The end of \<^verbatim>\<open>_handleFailure\<close>: the result of the fallback, or the error thrown on.\<close>

definition fallbackOrThrow ::
  "cb_error \<Rightarrow> 'v circuit_breaker \<Rightarrow> (cb_error + 'v) \<times> 'v circuit_breaker" where
  "fallbackOrThrow error b =
     (case fallbackFn b of Some f \<Rightarrow> (f error, b) | None \<Rightarrow> (Inl error, b))"

text \<open>
  \<^verbatim>\<open>_handleFailure\<close>. For an error the classifier counts, the counter and the time of
  the last failure are written first; then the log line reads \<^verbatim>\<open>error.message\<close>, which
  throws a \<^verbatim>\<open>TypeError\<close> when the error is \<^verbatim>\<open>null\<close> or \<^verbatim>\<open>undefined\<close>: the threshold test,
  \<^verbatim>\<open>_toOpen\<close> and the fallback are then not reached.
\<close>

definition handleFailure ::
  "clock \<Rightarrow> cb_error \<Rightarrow> 'v circuit_breaker \<Rightarrow> (cb_error + 'v) \<times> 'v circuit_breaker" where
  "handleFailure clk error b =
     (if isFailure b error then
        (let b1 = b\<lparr>failureCount := failureCount b + 1, lastFailureTime := Some (t_fail clk)\<rparr>
         in if error = NullError then (Inl MessageTypeError, b1)
            else
              (let b2 =
                     (if state b1 = CLOSED \<and> failureCount b1 \<ge> failureThreshold b1
                        then toOpen (t_open clk) b1
                      else if state b1 = HALF_OPEN then toOpen (t_open clk) b1
                      else b1)
               in fallbackOrThrow error b2))
      else fallbackOrThrow error b)"

definition handleOpenCircuit :: "'v circuit_breaker \<Rightarrow> cb_error + 'v" where
  "handleOpenCircuit b =
     (case fallbackFn b of Some f \<Rightarrow> f OpenCircuitError | None \<Rightarrow> Inl OpenCircuitError)"

text \<open>
  What the wrapped function does when it is called: it resolves with a value, rejects
  with an error, or does neither before the time-out.
\<close>

datatype 'v behaviour = Resolves 'v | Rejects cb_error | Hangs

definition executeWithTimeout :: "'v behaviour \<Rightarrow> cb_error + 'v" where
  "executeWithTimeout req =
     (case req of Resolves v \<Rightarrow> Inr v | Rejects e \<Rightarrow> Inl e | Hangs \<Rightarrow> Inl TimeoutError)"

text \<open>
  \<^verbatim>\<open>this.lastFailureTime && Date.now() - this.lastFailureTime > this.resetTimeout\<close>; the
  number 0 is falsy, like \<^verbatim>\<open>null\<close>.
\<close>

definition resetElapsed :: "clock \<Rightarrow> 'v circuit_breaker \<Rightarrow> bool" where
  "resetElapsed clk b =
     (case lastFailureTime b of
        None \<Rightarrow> False
      | Some t \<Rightarrow> t \<noteq> 0 \<and> t_fire clk - t > resetTimeout b)"

text \<open>
  The result of \<^verbatim>\<open>fire\<close>: what the caller gets (a value, or the error thrown), the
  breaker afterwards, and the state the breaker was in when the wrapped function was
  called (\<open>None\<close> when it was not called).
\<close>

record 'v fired =
  outcome :: "cb_error + 'v"
  breaker :: "'v circuit_breaker"
  calledIn :: "CircuitState option"

definition fire :: "clock \<Rightarrow> 'v behaviour \<Rightarrow> 'v circuit_breaker \<Rightarrow> 'v fired" where
  "fire clk req b =
     (if state b = OPEN \<and> \<not> resetElapsed clk b
        then \<lparr>outcome = handleOpenCircuit b, breaker = b, calledIn = None\<rparr>
      else
        (let b0 = (if state b = OPEN then toHalfOpen b else b)
         in (case executeWithTimeout req of
               Inr result \<Rightarrow>
                 \<lparr>outcome = Inr result, breaker = handleSuccess b0, calledIn = Some (state b0)\<rparr>
             | Inl error \<Rightarrow>
                 (case handleFailure clk error b0 of
                    (res, b1) \<Rightarrow> \<lparr>outcome = res, breaker = b1, calledIn = Some (state b0)\<rparr>))))"

text \<open>Consecutive calls of \<^verbatim>\<open>fire\<close> on one breaker: the breaker after the last one.\<close>

fun fireAll :: "(clock \<times> 'v behaviour) list \<Rightarrow> 'v circuit_breaker \<Rightarrow> 'v circuit_breaker" where
  "fireAll [] b = b"
| "fireAll ((clk, req) # rest) b = fireAll rest (breaker (fire clk req b))"

text \<open>A call that fails, with an error the classifier of the breaker counts.\<close>

definition countedFailure :: "'v circuit_breaker \<Rightarrow> 'v behaviour \<Rightarrow> bool" where
  "countedFailure b req =
     (case executeWithTimeout req of Inl e \<Rightarrow> isFailure b e | Inr v \<Rightarrow> False)"

definition succeeds :: "'v behaviour \<Rightarrow> bool" where
  "succeeds req = (case req of Resolves v \<Rightarrow> True | Rejects e \<Rightarrow> False | Hangs \<Rightarrow> False)"


section \<open>Sequences of ledger operations\<close>

text \<open>
  The three mutating methods of a row as commands, and a run of them on one row in
  which a command that throws leaves the row as it is, as in the handlers.
\<close>

datatype stock_op = ReserveStock int | ReduceStock int bool | AddStock int int

fun applyStockOp :: "stock_op \<Rightarrow> inventory \<Rightarrow> inventory_error + inventory" where
  "applyStockOp (ReserveStock amount) row = reserveStock row amount"
| "applyStockOp (ReduceStock amount isReserved) row = reduceStock row amount isReserved"
| "applyStockOp (AddStock amount now) row = addStock row amount now"

fun runStockOps :: "stock_op list \<Rightarrow> inventory \<Rightarrow> inventory" where
  "runStockOps [] row = row"
| "runStockOps (op # rest) row =
     (case applyStockOp op row of
        Inl e \<Rightarrow> runStockOps rest row
      | Inr row' \<Rightarrow> runStockOps rest row')"

text \<open>Every row of the table passes the validators of its counters.\<close>

definition table_valid :: "inventory_table \<Rightarrow> bool" where
  "table_valid tbl = (\<forall>row \<in> ran tbl. counters_valid row)"


text \<open>
  The consumer handling one delivery after the other (\<^verbatim>\<open>prefetch(1)\<close>), each with the
  time at which it is handled; a redelivered message occurs in the list again.
\<close>

fun consumeAll ::
  "(string \<Rightarrow> json_message) \<Rightarrow> (int \<times> string option) list \<Rightarrow> inventory_table \<Rightarrow> inventory_table" where
  "consumeAll JSON_parse [] tbl = tbl"
| "consumeAll JSON_parse ((now, msg) # rest) tbl =
     consumeAll JSON_parse rest (fst (handleMessage JSON_parse now msg tbl))"

text \<open>The routing keys the queue of the product service is bound to.\<close>

definition knownEvents :: "string list" where
  "knownEvents =
     [''order.created'', ''order.paid'', ''order.cancelled'', ''order.refunded'',
      ''order.item.added'', ''order.item.removed'']"

text \<open>The events whose handler walks through \<^verbatim>\<open>data.items\<close>.\<close>

definition listEvents :: "string list" where
  "listEvents = [''order.created'', ''order.paid'', ''order.cancelled'', ''order.refunded'']"

text \<open>
  The payloads on which a handler throws outside its per-item \<^verbatim>\<open>try\<close>: a known event
  without \<^verbatim>\<open>data\<close>, or a list event whose \<^verbatim>\<open>items\<close> is missing or holds a \<^verbatim>\<open>null\<close> entry.
\<close>

definition payloadThrows :: "string \<Rightarrow> event_data option \<Rightarrow> bool" where
  "payloadThrows event data =
     (event \<in> set knownEvents \<and>
      (case data of
         None \<Rightarrow> True
       | Some d \<Rightarrow>
           event \<in> set listEvents \<and>
           (case ed_items d of None \<Rightarrow> True | Some its \<Rightarrow> None \<in> set its)))"

section \<open>Properties of the inventory ledger\<close>

lemma save_counters [simp]:
  "quantity (save row) = quantity row"
  "reservedQuantity (save row) = reservedQuantity row"
  by (simp_all add: save_def beforeSave_def)

lemma applyStockOp_valid:
  "counters_valid row \<Longrightarrow> applyStockOp op row = Inr row' \<Longrightarrow> counters_valid row'"
  by (cases op)
     (auto simp: counters_valid_def reserveStock_def reduceStock_def addStock_def
           split: if_splits)

lemma runStockOps_valid: "counters_valid row \<Longrightarrow> counters_valid (runStockOps ops row)"
proof (induction ops arbitrary: row)
  case Nil
  then show ?case by simp
next
  case (Cons op ops)
  show ?case
  proof (cases "applyStockOp op row")
    case (Inl e)
    with Cons show ?thesis by simp
  next
    case (Inr row')
    with Cons applyStockOp_valid[of row op row'] show ?thesis by simp
  qed
qed

lemma table_valid_upd:
  "table_valid tbl \<Longrightarrow> counters_valid row \<Longrightarrow> table_valid (tbl(pid \<mapsto> row))"
  unfolding table_valid_def
  by (auto simp: ran_def split: if_splits)

lemma table_valid_lookup: "table_valid tbl \<Longrightarrow> tbl pid = Some row \<Longrightarrow> counters_valid row"
  unfolding table_valid_def by (auto simp: ran_def)

lemma reduceStock_valid:
  "counters_valid row \<Longrightarrow> reduceStock row amount r = Inr row' \<Longrightarrow> counters_valid row'"
  using applyStockOp_valid[of row "ReduceStock amount r" row'] by simp

lemma reserveStock_valid:
  "counters_valid row \<Longrightarrow> reserveStock row amount = Inr row' \<Longrightarrow> counters_valid row'"
  using applyStockOp_valid[of row "ReserveStock amount" row'] by simp

lemma addStock_valid:
  "counters_valid row \<Longrightarrow> addStock row amount now = Inr row' \<Longrightarrow> counters_valid row'"
  using applyStockOp_valid[of row "AddStock amount now" row'] by simp

lemma payItem_valid: "table_valid tbl \<Longrightarrow> table_valid (payItem pid qty tbl)"
  unfolding payItem_def
  by (auto split: option.splits sum.splits
      intro!: table_valid_upd dest: table_valid_lookup reduceStock_valid)

lemma reserveItem_valid: "table_valid tbl \<Longrightarrow> table_valid (reserveItem pid qty tbl)"
  unfolding reserveItem_def
  by (auto split: option.splits sum.splits
      intro!: table_valid_upd dest: table_valid_lookup reserveStock_valid)

lemma releaseItem_valid: "table_valid tbl \<Longrightarrow> table_valid (releaseItem pid qty tbl)"
  unfolding releaseItem_def
  by (auto split: option.splits sum.splits
      intro!: table_valid_upd dest: table_valid_lookup reduceStock_valid)

lemma restockItem_valid: "table_valid tbl \<Longrightarrow> table_valid (restockItem now pid qty tbl)"
  unfolding restockItem_def
  by (auto split: option.splits sum.splits
      intro!: table_valid_upd dest: table_valid_lookup addStock_valid)

lemma forEachItem_valid:
  assumes "\<And>pid qty tbl. table_valid tbl \<Longrightarrow> table_valid (step pid qty tbl)"
  shows "table_valid tbl \<Longrightarrow> table_valid (fst (forEachItem step its tbl))"
proof (induction its arbitrary: tbl)
  case Nil
  then show ?case by simp
next
  case (Cons x its)
  then show ?case by (cases x) (simp_all add: assms)
qed

lemma withItems_valid:
  assumes "\<And>pid qty tbl. table_valid tbl \<Longrightarrow> table_valid (step pid qty tbl)"
  shows "table_valid tbl \<Longrightarrow> table_valid (fst (withItems step data tbl))"
  unfolding withItems_def
  by (auto split: option.splits intro: forEachItem_valid assms)

lemma dispatch_valid: "table_valid tbl \<Longrightarrow> table_valid (fst (dispatch now event data tbl))"
  unfolding dispatch_def handleOrderCreated_def handleOrderPaid_def handleOrderCancelled_def
    handleOrderRefunded_def handleOrderItemAdded_def handleOrderItemRemoved_def
  by (auto intro!: withItems_valid payItem_valid reserveItem_valid releaseItem_valid
        restockItem_valid split: option.splits)

lemma handleMessage_valid:
  "table_valid tbl \<Longrightarrow> table_valid (fst (handleMessage JSON_parse now msg tbl))"
proof (cases msg)
  case None
  then show "table_valid tbl \<Longrightarrow> ?thesis" by (simp add: handleMessage_def)
next
  case (Some body)
  assume v: "table_valid tbl"
  have "table_valid (fst (tryProcess JSON_parse now body tbl))"
    using v dispatch_valid by (simp add: tryProcess_def split: json_message.splits)
  then show ?thesis
    using Some
    by (cases "tryProcess JSON_parse now body tbl")
       (auto simp: handleMessage_def split: option.splits)
qed

lemma consumeAll_valid:
  "table_valid tbl \<Longrightarrow> table_valid (consumeAll JSON_parse msgs tbl)"
  by (induction msgs arbitrary: tbl) (auto simp: handleMessage_valid)

text \<open>
  Claim C1 (reservation and commit are symmetric). Take a row with \<^verbatim>\<open>quantity = 10\<close> and
  \<^verbatim>\<open>reservedQuantity = 0\<close>. \<^verbatim>\<open>reserveStock(3)\<close> succeeds and leaves the row with 3 reserved
  and 7 available. When the consumer then handles \<^verbatim>\<open>order.paid\<close> for 3 units of that
  product (release of the reservation, then reduction of the real stock), the row ends
  with quantity 7 and nothing reserved. When it handles \<^verbatim>\<open>order.cancelled\<close> instead (release
  only), the row ends with quantity 10 and nothing reserved. In both cases the handler
  finishes without an error.
\<close>

theorem reservation_commit_symmetry:
  assumes "quantity row = 10" and "reservedQuantity row = 0"
  defines "reserved \<equiv> row\<lparr>reservedQuantity := 3, inStock := True\<rparr>"
  defines "paid \<equiv> row\<lparr>reservedQuantity := 0, quantity := 7, inStock := True\<rparr>"
  defines "cancelled \<equiv> row\<lparr>reservedQuantity := 0, inStock := True\<rparr>"
  shows "reserveStock row 3 = Inr reserved
       \<and> reservedQuantity reserved = 3 \<and> getAvailableStock reserved = 7
       \<and> handleOrderPaid (itemsEvent [(pid, 3)]) (tbl(pid \<mapsto> reserved)) = (tbl(pid \<mapsto> paid), None)
       \<and> quantity paid = 7 \<and> reservedQuantity paid = 0
       \<and> handleOrderCancelled (itemsEvent [(pid, 3)]) (tbl(pid \<mapsto> reserved))
            = (tbl(pid \<mapsto> cancelled), None)
       \<and> quantity cancelled = 10 \<and> reservedQuantity cancelled = 0"
  using assms
  by (simp add: reserveStock_def getAvailableStock_def save_def beforeSave_def
      handleOrderPaid_def handleOrderCancelled_def withItems_def itemsEvent_def
      payItem_def releaseItem_def reduceStock_def)

theorem reservation_commit_symmetry_witness:
  "reserveStock
     \<lparr>productId = ''p1'', quantity = 10, reservedQuantity = 0, inStock = True,
      lowStockThreshold = 5, lastRestockDate = None\<rparr> 3
   = Inr \<lparr>productId = ''p1'', quantity = 10, reservedQuantity = 3, inStock = True,
          lowStockThreshold = 5, lastRestockDate = None\<rparr>
   \<and> handleOrderPaid (itemsEvent [(''p1'', 3)])
        [''p1'' \<mapsto> \<lparr>productId = ''p1'', quantity = 10, reservedQuantity = 3, inStock = True,
                    lowStockThreshold = 5, lastRestockDate = None\<rparr>]
      = ([''p1'' \<mapsto> \<lparr>productId = ''p1'', quantity = 7, reservedQuantity = 0, inStock = True,
                     lowStockThreshold = 5, lastRestockDate = None\<rparr>], None)
   \<and> handleOrderCancelled (itemsEvent [(''p1'', 3)])
        [''p1'' \<mapsto> \<lparr>productId = ''p1'', quantity = 10, reservedQuantity = 3, inStock = True,
                    lowStockThreshold = 5, lastRestockDate = None\<rparr>]
      = ([''p1'' \<mapsto> \<lparr>productId = ''p1'', quantity = 10, reservedQuantity = 0, inStock = True,
                     lowStockThreshold = 5, lastRestockDate = None\<rparr>], None)"
  using reservation_commit_symmetry
    [of "\<lparr>productId = ''p1'', quantity = 10, reservedQuantity = 0, inStock = True,
          lowStockThreshold = 5, lastRestockDate = None\<rparr>" "''p1''" Map.empty]
  by simp

text \<open>
  Claim C3 (\<^verbatim>\<open>reserveStock\<close>). The available stock is \<^verbatim>\<open>max(0, quantity - reservedQuantity)\<close>.
  For a positive amount: when the available stock is less than the amount,
  \<^verbatim>\<open>reserveStock\<close> throws the insufficient-stock error and the stored row stays as it
  was (both counters included); otherwise it succeeds, \<^verbatim>\<open>reservedQuantity\<close> has grown by
  the amount and \<^verbatim>\<open>quantity\<close> is the same, and that row is what is stored.
\<close>

theorem reserveStock_insufficient_or_reserved:
  assumes "0 < amount"
  shows "getAvailableStock row = max 0 (quantity row - reservedQuantity row)
       \<and> (getAvailableStock row < amount \<longrightarrow>
            reserveStock row amount = Inl InsufficientStock
            \<and> (tbl pid = Some row \<longrightarrow> reserveItem pid amount tbl = tbl))
       \<and> (\<not> getAvailableStock row < amount \<longrightarrow>
            (\<exists>row'. reserveStock row amount = Inr row'
               \<and> reservedQuantity row' = reservedQuantity row + amount
               \<and> quantity row' = quantity row
               \<and> (tbl pid = Some row \<longrightarrow> reserveItem pid amount tbl = tbl(pid \<mapsto> row'))))"
  using assms by (simp add: reserveStock_def reserveItem_def getAvailableStock_def)

theorem reserveStock_insufficient_or_reserved_witness:
  "(0::int) < 8
   \<and> getAvailableStock
        \<lparr>productId = ''p1'', quantity = 10, reservedQuantity = 3, inStock = True,
         lowStockThreshold = 5, lastRestockDate = None\<rparr> = 7
   \<and> reserveStock
        \<lparr>productId = ''p1'', quantity = 10, reservedQuantity = 3, inStock = True,
         lowStockThreshold = 5, lastRestockDate = None\<rparr> 8 = Inl InsufficientStock
   \<and> reserveItem ''p1'' 8
        [''p1'' \<mapsto> \<lparr>productId = ''p1'', quantity = 10, reservedQuantity = 3, inStock = True,
                    lowStockThreshold = 5, lastRestockDate = None\<rparr>]
      = [''p1'' \<mapsto> \<lparr>productId = ''p1'', quantity = 10, reservedQuantity = 3, inStock = True,
                    lowStockThreshold = 5, lastRestockDate = None\<rparr>]
   \<and> (0::int) < 7
   \<and> reserveStock
        \<lparr>productId = ''p1'', quantity = 10, reservedQuantity = 3, inStock = True,
         lowStockThreshold = 5, lastRestockDate = None\<rparr> 7
      = Inr \<lparr>productId = ''p1'', quantity = 10, reservedQuantity = 10, inStock = True,
             lowStockThreshold = 5, lastRestockDate = None\<rparr>"
  using
    reserveStock_insufficient_or_reserved
      [of 8 "\<lparr>productId = ''p1'', quantity = 10, reservedQuantity = 3, inStock = True,
               lowStockThreshold = 5, lastRestockDate = None\<rparr>"
          "[''p1'' \<mapsto> \<lparr>productId = ''p1'', quantity = 10, reservedQuantity = 3, inStock = True,
                       lowStockThreshold = 5, lastRestockDate = None\<rparr>]" "''p1''"]
    reserveStock_insufficient_or_reserved
      [of 7 "\<lparr>productId = ''p1'', quantity = 10, reservedQuantity = 3, inStock = True,
               lowStockThreshold = 5, lastRestockDate = None\<rparr>" Map.empty "''p1''"]
  by (simp add: getAvailableStock_def reserveStock_def save_def beforeSave_def)

text \<open>
  Claim C8 (no counter goes negative, also under replay). Starting from a row whose
  counters are not negative, every sequence of \<^verbatim>\<open>reserveStock\<close>, \<^verbatim>\<open>reduceStock\<close> and
  \<^verbatim>\<open>addStock\<close> calls, with any amounts, leaves \<^verbatim>\<open>quantity >= 0\<close> and
  \<^verbatim>\<open>reservedQuantity >= 0\<close>. The same holds for every row of the table after the
  \<^verbatim>\<open>order.paid\<close> handling, after that handling applied a second time to the same event,
  and after any sequence of deliveries to the consumer. The reason is the guard of each
  method: a release of more than is reserved, a reduction of more than the quantity, a
  reservation of more than is available and an addition of a non-positive amount are
  rejected before anything is written.
\<close>

theorem inventory_counters_never_negative:
  "(counters_valid row \<longrightarrow> counters_valid (runStockOps ops row))
   \<and> (table_valid tbl \<longrightarrow>
        table_valid (fst (handleOrderPaid d tbl))
        \<and> table_valid (fst (handleOrderPaid d (fst (handleOrderPaid d tbl))))
        \<and> table_valid (consumeAll JSON_parse msgs tbl))
   \<and> (reservedQuantity row < amount \<longrightarrow> isl (reduceStock row amount True))
   \<and> (quantity row < amount \<longrightarrow> isl (reduceStock row amount False))
   \<and> (getAvailableStock row < amount \<longrightarrow> isl (reserveStock row amount))
   \<and> (amount \<le> 0 \<longrightarrow> isl (addStock row amount now))"
proof -
  have paid: "table_valid t \<Longrightarrow> table_valid (fst (handleOrderPaid d t))" for t
    unfolding handleOrderPaid_def by (rule withItems_valid) (rule payItem_valid)
  have "reservedQuantity row < amount \<longrightarrow> isl (reduceStock row amount True)"
    by (simp add: reduceStock_def)
  moreover have "quantity row < amount \<longrightarrow> isl (reduceStock row amount False)"
    by (simp add: reduceStock_def)
  moreover have "getAvailableStock row < amount \<longrightarrow> isl (reserveStock row amount)"
    by (simp add: reserveStock_def)
  moreover have "amount \<le> 0 \<longrightarrow> isl (addStock row amount now)"
    by (simp add: addStock_def)
  ultimately show ?thesis
    using runStockOps_valid paid consumeAll_valid by blast
qed

theorem inventory_counters_never_negative_witness:
  "counters_valid
     \<lparr>productId = ''p1'', quantity = 10, reservedQuantity = 6, inStock = True,
      lowStockThreshold = 5, lastRestockDate = None\<rparr>
   \<and> counters_valid
       (runStockOps [ReduceStock 3 True, ReduceStock 3 False, ReduceStock 3 True,
                     ReduceStock 3 False, ReduceStock 3 True, ReduceStock 9 False]
          \<lparr>productId = ''p1'', quantity = 10, reservedQuantity = 6, inStock = True,
           lowStockThreshold = 5, lastRestockDate = None\<rparr>)
   \<and> table_valid
       [''p1'' \<mapsto> \<lparr>productId = ''p1'', quantity = 10, reservedQuantity = 6, inStock = True,
                   lowStockThreshold = 5, lastRestockDate = None\<rparr>]
   \<and> table_valid
       (fst (handleOrderPaid (itemsEvent [(''p1'', 3)])
          (fst (handleOrderPaid (itemsEvent [(''p1'', 3)])
             [''p1'' \<mapsto> \<lparr>productId = ''p1'', quantity = 10, reservedQuantity = 6, inStock = True,
                         lowStockThreshold = 5, lastRestockDate = None\<rparr>]))))
   \<and> isl (reduceStock
       \<lparr>productId = ''p1'', quantity = 10, reservedQuantity = 6, inStock = True,
        lowStockThreshold = 5, lastRestockDate = None\<rparr> 11 True)
   \<and> isl (reduceStock
       \<lparr>productId = ''p1'', quantity = 10, reservedQuantity = 6, inStock = True,
        lowStockThreshold = 5, lastRestockDate = None\<rparr> 11 False)
   \<and> isl (reserveStock
       \<lparr>productId = ''p1'', quantity = 10, reservedQuantity = 6, inStock = True,
        lowStockThreshold = 5, lastRestockDate = None\<rparr> 11)"
  using inventory_counters_never_negative
    [of "\<lparr>productId = ''p1'', quantity = 10, reservedQuantity = 6, inStock = True,
          lowStockThreshold = 5, lastRestockDate = None\<rparr>"
        "[ReduceStock 3 True, ReduceStock 3 False, ReduceStock 3 True,
          ReduceStock 3 False, ReduceStock 3 True, ReduceStock 9 False]"
        "[''p1'' \<mapsto> \<lparr>productId = ''p1'', quantity = 10, reservedQuantity = 6, inStock = True,
                     lowStockThreshold = 5, lastRestockDate = None\<rparr>]"
        "itemsEvent [(''p1'', 3)]" "\<lambda>s. Malformed" "[]" 11 0]
  by (simp add: counters_valid_def table_valid_def getAvailableStock_def)

section \<open>Properties of the consumer\<close>

lemma forEachItem_error:
  "snd (forEachItem step its tbl) = None \<or> snd (forEachItem step its tbl) = Some TypeError"
proof (induction its arbitrary: tbl)
  case Nil
  then show ?case by simp
next
  case (Cons x its)
  then show ?case by (cases x) simp_all
qed

lemma forEachItem_all_present:
  "None \<notin> set its \<Longrightarrow> snd (forEachItem step its tbl) = None"
proof (induction its arbitrary: tbl)
  case Nil
  then show ?case by simp
next
  case (Cons x its)
  then show ?case by (cases x) simp_all
qed

lemma withItems_error:
  "snd (withItems step data tbl) = None \<or> snd (withItems step data tbl) = Some TypeError"
  using forEachItem_error by (auto simp: withItems_def split: option.splits)

lemma dispatch_error:
  "snd (dispatch now event data tbl) = None \<or> snd (dispatch now event data tbl) = Some TypeError"
  unfolding dispatch_def handleOrderCreated_def handleOrderPaid_def handleOrderCancelled_def
    handleOrderRefunded_def handleOrderItemAdded_def handleOrderItemRemoved_def
  using withItems_error by (auto split: option.splits)

lemma withItems_itemsEvent: "snd (withItems step (itemsEvent its) tbl) = None"
proof -
  have "None \<notin> set (map (\<lambda>(p, q). Some \<lparr>ei_productId = p, ei_quantity = q\<rparr>) its)"
    by auto
  then show ?thesis
    by (simp add: withItems_def itemsEvent_def forEachItem_all_present del: set_map)
qed

lemma dispatch_itemsEvent: "snd (dispatch now event (itemsEvent its) tbl) = None"
proof -
  have "handleOrderItemAdded (itemsEvent its) tbl = (reserveItem [] 0 tbl, None)"
    by (simp add: handleOrderItemAdded_def itemsEvent_def)
  moreover have "handleOrderItemRemoved (itemsEvent its) tbl = (releaseItem [] 0 tbl, None)"
    by (simp add: handleOrderItemRemoved_def itemsEvent_def)
  ultimately show ?thesis
    by (simp add: dispatch_def handleOrderCreated_def handleOrderPaid_def
        handleOrderCancelled_def handleOrderRefunded_def withItems_itemsEvent)
qed

lemma dispatch_no_data:
  "event \<in> set knownEvents \<Longrightarrow> dispatch now event None tbl = (tbl, Some TypeError)"
  unfolding dispatch_def handleOrderCreated_def handleOrderPaid_def handleOrderCancelled_def
    handleOrderRefunded_def handleOrderItemAdded_def handleOrderItemRemoved_def knownEvents_def
  by (auto simp: withItems_def)

lemma forEachItem_throws:
  "snd (forEachItem step its tbl) = (if None \<in> set its then Some TypeError else None)"
proof (induction its arbitrary: tbl)
  case Nil
  then show ?case by simp
next
  case (Cons x its)
  then show ?case by (cases x) simp_all
qed

lemma withItems_throws:
  "snd (withItems step data tbl) =
     (case data of
        None \<Rightarrow> Some TypeError
      | Some d \<Rightarrow>
          (case ed_items d of
             None \<Rightarrow> Some TypeError
           | Some its \<Rightarrow> if None \<in> set its then Some TypeError else None))"
  by (simp add: withItems_def forEachItem_throws split: option.splits)

lemma dispatch_throws:
  "snd (dispatch now event data tbl) = (if payloadThrows event data then Some TypeError else None)"
proof -
  have lists: "event \<in> set listEvents \<Longrightarrow>
      snd (dispatch now event data tbl) = snd (withItems step data tbl)" for step
    by (auto simp: listEvents_def dispatch_def handleOrderCreated_def handleOrderPaid_def
        handleOrderCancelled_def handleOrderRefunded_def withItems_throws)
  have singles: "event = ''order.item.added'' \<or> event = ''order.item.removed'' \<Longrightarrow>
      snd (dispatch now event data tbl) = (case data of None \<Rightarrow> Some TypeError | Some d \<Rightarrow> None)"
    by (auto simp: dispatch_def handleOrderItemAdded_def handleOrderItemRemoved_def
        split: option.splits)
  have others: "event \<notin> set knownEvents \<Longrightarrow> snd (dispatch now event data tbl) = None"
    by (simp add: knownEvents_def dispatch_def)
  consider "event \<in> set listEvents"
    | "event = ''order.item.added'' \<or> event = ''order.item.removed''"
    | "event \<notin> set knownEvents"
    by (auto simp: knownEvents_def listEvents_def)
  then show ?thesis
  proof cases
    case 1
    then have "event \<in> set knownEvents"
      by (auto simp: knownEvents_def listEvents_def)
    with 1 lists[of reserveItem] show ?thesis
      by (simp add: payloadThrows_def withItems_throws split: option.splits)
  next
    case 2
    then have "event \<in> set knownEvents" and "event \<notin> set listEvents"
      by (auto simp: knownEvents_def listEvents_def)
    with singles[OF 2] show ?thesis
      by (simp add: payloadThrows_def split: option.splits)
  next
    case 3
    with others show ?thesis
      by (simp add: payloadThrows_def)
  qed
qed

lemma payItem_release_throws:
  "tbl pid = Some row \<Longrightarrow> reduceStock row qty True = Inl e \<Longrightarrow> payItem pid qty tbl = tbl"
  by (simp add: payItem_def)

lemma reserveItem_throws:
  "tbl pid = Some row \<Longrightarrow> reserveStock row qty = Inl e \<Longrightarrow> reserveItem pid qty tbl = tbl"
  by (simp add: reserveItem_def)

text \<open>
  Claim C7, as the code has it (acknowledgment). For a delivered message, what
  \<^verbatim>\<open>handleMessage\<close> sends on the channel is decided by the parsed message alone, and the
  table it leaves is the one the \<^verbatim>\<open>try\<close> block reached: \<^verbatim>\<open>nack\<close> without requeue exactly
  when \<^verbatim>\<open>JSON.parse\<close> throws, which is the only source of a \<^verbatim>\<open>SyntaxError\<close>, and then the
  table is untouched; \<^verbatim>\<open>nack\<close> with requeue exactly when a \<^verbatim>\<open>TypeError\<close> escapes, that is for
  a parsed \<^verbatim>\<open>null\<close>, for a known event without \<^verbatim>\<open>data\<close>, and for a list event whose
  \<^verbatim>\<open>items\<close> is missing or holds a \<^verbatim>\<open>null\<close> entry; \<^verbatim>\<open>ack\<close> in every other case, after the
  handler has returned. An error that a ledger method throws while an item is processed
  is caught inside the handler: the message is acknowledged all the same, and when the
  first call for the only item throws, the table is left as it was. A cancelled
  consumer (\<^verbatim>\<open>msg\<close> is \<^verbatim>\<open>null\<close>) sends nothing.
\<close>

theorem handleMessage_ack_nack:
  "snd (handleMessage JSON_parse now (Some body) tbl) =
     (case JSON_parse body of
        Malformed \<Rightarrow> [Nack False]
      | JsonNull \<Rightarrow> [Nack True]
      | JsonObject event data \<Rightarrow> if payloadThrows event data then [Nack True] else [Ack])
   \<and> snd (handleMessage JSON_parse now (Some body) tbl) =
     (case snd (tryProcess JSON_parse now body tbl) of
        None \<Rightarrow> [Ack]
      | Some e \<Rightarrow> if e = SyntaxError then [Nack False] else [Nack True])
   \<and> fst (handleMessage JSON_parse now (Some body) tbl) = fst (tryProcess JSON_parse now body tbl)
   \<and> (snd (tryProcess JSON_parse now body tbl) = Some SyntaxError \<longleftrightarrow> JSON_parse body = Malformed)
   \<and> (JSON_parse body = Malformed \<longrightarrow>
        handleMessage JSON_parse now (Some body) tbl = (tbl, [Nack False]))
   \<and> (JSON_parse body = JsonObject event (itemsEvent its) \<longrightarrow>
        snd (handleMessage JSON_parse now (Some body) tbl) = [Ack])
   \<and> (JSON_parse body = JsonObject ''order.paid'' (itemsEvent [(pid, qty)])
        \<and> tbl pid = Some row \<and> reduceStock row qty True = Inl err \<longrightarrow>
        handleMessage JSON_parse now (Some body) tbl = (tbl, [Ack]))
   \<and> (JSON_parse body = JsonObject ''order.created'' (itemsEvent [(pid, qty)])
        \<and> tbl pid = Some row \<and> reserveStock row qty = Inl err \<longrightarrow>
        handleMessage JSON_parse now (Some body) tbl = (tbl, [Ack]))
   \<and> (JSON_parse body = JsonObject event None \<and> event \<in> set knownEvents \<longrightarrow>
        handleMessage JSON_parse now (Some body) tbl = (tbl, [Nack True]))
   \<and> handleMessage JSON_parse now None tbl = (tbl, [])"
proof -
  have a: "snd (handleMessage JSON_parse now (Some body) tbl) =
     (case snd (tryProcess JSON_parse now body tbl) of
        None \<Rightarrow> [Ack]
      | Some e \<Rightarrow> if e = SyntaxError then [Nack False] else [Nack True])"
    by (simp add: handleMessage_def onError_def split: prod.splits option.splits)
  have a0: "snd (handleMessage JSON_parse now (Some body) tbl) =
     (case JSON_parse body of
        Malformed \<Rightarrow> [Nack False]
      | JsonNull \<Rightarrow> [Nack True]
      | JsonObject event data \<Rightarrow> if payloadThrows event data then [Nack True] else [Ack])"
  proof (cases "JSON_parse body")
    case (JsonObject ev dat)
    then show ?thesis
      using dispatch_throws[of now ev dat tbl] by (simp add: a tryProcess_def)
  qed (simp_all add: a tryProcess_def)
  have a': "fst (handleMessage JSON_parse now (Some body) tbl)
      = fst (tryProcess JSON_parse now body tbl)"
    by (simp add: handleMessage_def split: prod.splits option.splits)
  have b: "snd (tryProcess JSON_parse now body tbl) = Some SyntaxError
      \<longleftrightarrow> JSON_parse body = Malformed"
  proof (cases "JSON_parse body")
    case (JsonObject ev dat)
    then show ?thesis
      using dispatch_error[of now ev dat tbl] by (auto simp: tryProcess_def)
  qed (simp_all add: tryProcess_def)
  have c: "JSON_parse body = Malformed \<longrightarrow>
        handleMessage JSON_parse now (Some body) tbl = (tbl, [Nack False])"
    by (simp add: handleMessage_def tryProcess_def onError_def)
  have d: "JSON_parse body = JsonObject event (itemsEvent its) \<longrightarrow>
        snd (handleMessage JSON_parse now (Some body) tbl) = [Ack]"
    using dispatch_itemsEvent[of now event its tbl]
    by (auto simp: handleMessage_def tryProcess_def split: prod.splits option.splits)
  have d1: "JSON_parse body = JsonObject ''order.paid'' (itemsEvent [(pid, qty)])
        \<and> tbl pid = Some row \<and> reduceStock row qty True = Inl err \<longrightarrow>
        handleMessage JSON_parse now (Some body) tbl = (tbl, [Ack])"
    using payItem_release_throws[of tbl pid row qty err]
    by (auto simp: handleMessage_def tryProcess_def dispatch_def handleOrderPaid_def
        withItems_def itemsEvent_def)
  have d2: "JSON_parse body = JsonObject ''order.created'' (itemsEvent [(pid, qty)])
        \<and> tbl pid = Some row \<and> reserveStock row qty = Inl err \<longrightarrow>
        handleMessage JSON_parse now (Some body) tbl = (tbl, [Ack])"
    using reserveItem_throws[of tbl pid row qty err]
    by (auto simp: handleMessage_def tryProcess_def dispatch_def handleOrderCreated_def
        withItems_def itemsEvent_def)
  have e: "JSON_parse body = JsonObject event None \<and> event \<in> set knownEvents \<longrightarrow>
        handleMessage JSON_parse now (Some body) tbl = (tbl, [Nack True])"
    using dispatch_no_data[of event now tbl]
    by (auto simp: handleMessage_def tryProcess_def onError_def)
  have f: "handleMessage JSON_parse now None tbl = (tbl, [])"
    by (simp add: handleMessage_def)
  from a0 a a' b c d d1 d2 e f show ?thesis
    by (intro conjI)
qed

theorem handleMessage_ack_nack_witness:
  "handleMessage
     (\<lambda>s. if s = ''{'' then Malformed
           else if s = ''paid'' then JsonObject ''order.paid'' (itemsEvent [(''p1'', 30)])
           else if s = ''hole'' then
             JsonObject ''order.paid'' (Some \<lparr>ed_items = Some [None], ed_productId = [], ed_quantity = 0\<rparr>)
           else JsonObject ''order.paid'' None)
     0 (Some ''{'')
     [''p1'' \<mapsto> \<lparr>productId = ''p1'', quantity = 10, reservedQuantity = 3, inStock = True,
                 lowStockThreshold = 5, lastRestockDate = None\<rparr>]
   = ([''p1'' \<mapsto> \<lparr>productId = ''p1'', quantity = 10, reservedQuantity = 3, inStock = True,
                  lowStockThreshold = 5, lastRestockDate = None\<rparr>], [Nack False])
   \<and> handleMessage
       (\<lambda>s. if s = ''{'' then Malformed
             else if s = ''paid'' then JsonObject ''order.paid'' (itemsEvent [(''p1'', 30)])
             else if s = ''hole'' then
               JsonObject ''order.paid'' (Some \<lparr>ed_items = Some [None], ed_productId = [], ed_quantity = 0\<rparr>)
             else JsonObject ''order.paid'' None)
       0 (Some ''paid'')
       [''p1'' \<mapsto> \<lparr>productId = ''p1'', quantity = 10, reservedQuantity = 3, inStock = True,
                   lowStockThreshold = 5, lastRestockDate = None\<rparr>]
     = ([''p1'' \<mapsto> \<lparr>productId = ''p1'', quantity = 10, reservedQuantity = 3, inStock = True,
                    lowStockThreshold = 5, lastRestockDate = None\<rparr>], [Ack])
   \<and> snd (handleMessage
       (\<lambda>s. if s = ''{'' then Malformed
             else if s = ''paid'' then JsonObject ''order.paid'' (itemsEvent [(''p1'', 30)])
             else if s = ''hole'' then
               JsonObject ''order.paid'' (Some \<lparr>ed_items = Some [None], ed_productId = [], ed_quantity = 0\<rparr>)
             else JsonObject ''order.paid'' None)
       0 (Some ''hole'')
       [''p1'' \<mapsto> \<lparr>productId = ''p1'', quantity = 10, reservedQuantity = 3, inStock = True,
                   lowStockThreshold = 5, lastRestockDate = None\<rparr>])
     = [Nack True]
   \<and> handleMessage
       (\<lambda>s. if s = ''{'' then Malformed
             else if s = ''paid'' then JsonObject ''order.paid'' (itemsEvent [(''p1'', 30)])
             else if s = ''hole'' then
               JsonObject ''order.paid'' (Some \<lparr>ed_items = Some [None], ed_productId = [], ed_quantity = 0\<rparr>)
             else JsonObject ''order.paid'' None)
       0 (Some ''nodata'')
       [''p1'' \<mapsto> \<lparr>productId = ''p1'', quantity = 10, reservedQuantity = 3, inStock = True,
                   lowStockThreshold = 5, lastRestockDate = None\<rparr>]
     = ([''p1'' \<mapsto> \<lparr>productId = ''p1'', quantity = 10, reservedQuantity = 3, inStock = True,
                    lowStockThreshold = 5, lastRestockDate = None\<rparr>], [Nack True])"
proof -
  let ?parse = "\<lambda>s. if s = ''{'' then Malformed
             else if s = ''paid'' then JsonObject ''order.paid'' (itemsEvent [(''p1'', 30)])
             else if s = ''hole'' then
               JsonObject ''order.paid'' (Some \<lparr>ed_items = Some [None], ed_productId = [], ed_quantity = 0\<rparr>)
             else JsonObject ''order.paid'' None"
  let ?row = "\<lparr>productId = ''p1'', quantity = 10, reservedQuantity = 3,
                inStock = True, lowStockThreshold = 5, lastRestockDate = None\<rparr>"
  let ?tbl = "[''p1'' \<mapsto> ?row]"
  have h1: "?parse ''{'' = Malformed"
    by simp
  have h2: "?parse ''paid'' = JsonObject ''order.paid'' (itemsEvent [(''p1'', 30)])
      \<and> ?tbl ''p1'' = Some ?row \<and> reduceStock ?row 30 True = Inl InvalidState"
    by (simp add: reduceStock_def)
  have h3: "?parse ''nodata'' = JsonObject ''order.paid'' None \<and> ''order.paid'' \<in> set knownEvents"
    by (simp add: knownEvents_def)
  have h4: "?parse ''hole''
      = JsonObject ''order.paid'' (Some \<lparr>ed_items = Some [None], ed_productId = [], ed_quantity = 0\<rparr>)"
    and h5: "payloadThrows ''order.paid''
      (Some \<lparr>ed_items = Some [None], ed_productId = [], ed_quantity = 0\<rparr>)"
    by (simp_all add: payloadThrows_def knownEvents_def listEvents_def)
  have w1: "handleMessage ?parse 0 (Some ''{'') ?tbl = (?tbl, [Nack False])"
    using h1
      handleMessage_ack_nack[where JSON_parse = ?parse and body = "''{''" and now = 0
        and tbl = ?tbl and event = "''order.paid''" and its = "[]" and pid = "''p1''"
        and qty = 30 and row = ?row and err = InvalidState]
    by blast
  have w2: "handleMessage ?parse 0 (Some ''paid'') ?tbl = (?tbl, [Ack])"
    using h2
      handleMessage_ack_nack[where JSON_parse = ?parse and body = "''paid''" and now = 0
        and tbl = ?tbl and event = "''order.paid''" and its = "[]" and pid = "''p1''"
        and qty = 30 and row = ?row and err = InvalidState]
    by blast
  have w3: "snd (handleMessage ?parse 0 (Some ''hole'') ?tbl) = [Nack True]"
    using h4 h5
      handleMessage_ack_nack[where JSON_parse = ?parse and body = "''hole''" and now = 0
        and tbl = ?tbl and event = "''order.paid''" and its = "[]" and pid = "''p1''"
        and qty = 30 and row = ?row and err = InvalidState, THEN conjunct1]
    by simp
  have w4: "handleMessage ?parse 0 (Some ''nodata'') ?tbl = (?tbl, [Nack True])"
    using h3
      handleMessage_ack_nack[where JSON_parse = ?parse and body = "''nodata''" and now = 0
        and tbl = ?tbl and event = "''order.paid''" and its = "[]" and pid = "''p1''"
        and qty = 30 and row = ?row and err = InvalidState]
    by blast
  from w1 w2 w3 w4 show ?thesis
    by (intro conjI)
qed

text \<open>
  The claim as it is written fails for an error thrown while an item is processed:
  the release of 30 units with 3 reserved throws in the \<^verbatim>\<open>order.paid\<close> handler, which is
  no parse error, and the message is acknowledged, not requeued.
\<close>

theorem handleMessage_swallowed_error_counterexample:
  "reduceStock
     \<lparr>productId = ''p1'', quantity = 10, reservedQuantity = 3, inStock = True,
      lowStockThreshold = 5, lastRestockDate = None\<rparr> 30 True = Inl InvalidState
   \<and> handleMessage (\<lambda>s. JsonObject ''order.paid'' (itemsEvent [(''p1'', 30)])) 0 (Some ''m'')
        [''p1'' \<mapsto> \<lparr>productId = ''p1'', quantity = 10, reservedQuantity = 3, inStock = True,
                    lowStockThreshold = 5, lastRestockDate = None\<rparr>]
      = ([''p1'' \<mapsto> \<lparr>productId = ''p1'', quantity = 10, reservedQuantity = 3, inStock = True,
                     lowStockThreshold = 5, lastRestockDate = None\<rparr>], [Ack])
   \<and> [Ack] \<noteq> [Nack True]"
  by (simp add: reduceStock_def handleMessage_def tryProcess_def dispatch_def
      handleOrderPaid_def withItems_def itemsEvent_def payItem_def)

section \<open>Properties of the order aggregate\<close>

lemma effectivePrice_recalcItem [simp]: "effectivePrice (recalcItem it) = effectivePrice it"
  by (simp add: effectivePrice_def recalcItem_def Let_def split: option.splits)

lemma recalcItem_idem: "recalcItem (recalcItem it) = recalcItem it"
proof -
  have "effectivePrice (recalcItem it) = effectivePrice it"
    by simp
  moreover have "item_quantity (recalcItem it) = item_quantity it"
    and "item_taxes (recalcItem it) = item_taxes it"
    and "item_discount (recalcItem it) = item_discount it"
    by (simp_all add: recalcItem_def Let_def)
  ultimately show ?thesis
    by (simp add: recalcItem_def[of "recalcItem it"] Let_def) (simp add: recalcItem_def Let_def)
qed

lemma map_recalcItem_idem: "map recalcItem (map recalcItem its) = map recalcItem its"
  by (induction its) (simp_all add: recalcItem_idem)

lemma calculateTotals_idem: "calculateTotals (calculateTotals ord) = calculateTotals ord"
  by (simp add: calculateTotals_def Let_def map_recalcItem_idem del: map_map)

lemma totals_calculateTotals: "totals_consistent (calculateTotals ord)"
  by (simp add: totals_consistent_def calculateTotals_def Let_def)

lemma totals_addItem: "totals_consistent (addItem item ord)"
  by (simp add: addItem_def totals_calculateTotals)

lemma totals_applyDiscount: "totals_consistent (applyDiscount d ord)"
  by (simp add: totals_consistent_def applyDiscount_def Let_def
      split: option.splits discount_type.splits)

lemma findIndex_None: "findIndex p xs = None \<longleftrightarrow> (\<forall>x \<in> set xs. \<not> p x)"
  by (induction xs) auto

lemma findIndex_Some: "findIndex p xs = Some k \<Longrightarrow> k < length xs \<and> p (xs ! k)"
proof (induction xs arbitrary: k)
  case Nil
  then show ?case by simp
next
  case (Cons x xs)
  then show ?case by (cases k) (auto split: if_splits)
qed

lemma totals_removeItem:
  "findIndex (\<lambda>it. item_productId it = pid) (items ord) \<noteq> None \<or> totals_consistent ord
   \<Longrightarrow> totals_consistent (removeItem pid ord)"
  by (auto simp: removeItem_def totals_calculateTotals split: option.splits)

lemma money_updateStatus:
  "total (updateStatus s notes now ord) = total ord"
  "subtotal (updateStatus s notes now ord) = subtotal ord"
  "taxAmount (updateStatus s notes now ord) = taxAmount ord"
  "discountAmount (updateStatus s notes now ord) = discountAmount ord"
  "shippingAmount (updateStatus s notes now ord) = shippingAmount ord"
  by (simp_all add: updateStatus_def Let_def)

lemma totals_updateStatus:
  "totals_consistent (updateStatus s notes now ord) = totals_consistent ord"
  by (simp add: totals_consistent_def money_updateStatus)

lemma totals_payment_upd: "totals_consistent (ord\<lparr>payment := p\<rparr>) = totals_consistent ord"
  by (simp add: totals_consistent_def)

lemma totals_shipping_upd: "totals_consistent (ord\<lparr>shipping := s\<rparr>) = totals_consistent ord"
  by (simp add: totals_consistent_def)

lemma totals_status_upd: "totals_consistent (ord\<lparr>status := s\<rparr>) = totals_consistent ord"
  by (simp add: totals_consistent_def)

lemma totals_updatePayment:
  "totals_consistent (updatePayment i now ord) = totals_consistent ord"
  by (simp add: updatePayment_def Let_def totals_updateStatus totals_payment_upd)

lemma totals_updateShipping:
  "totals_consistent (updateShipping i now ord) = totals_consistent ord"
  by (simp add: updateShipping_def Let_def totals_updateStatus totals_shipping_upd)

lemma totals_applyOp: "totals_consistent ord \<Longrightarrow> totals_consistent (applyOp now op ord)"
  by (cases op)
     (simp_all add: totals_calculateTotals totals_addItem totals_applyDiscount totals_removeItem
        totals_updateStatus totals_updatePayment totals_updateShipping)

lemma totals_runOps: "totals_consistent ord \<Longrightarrow> totals_consistent (runOps ops ord)"
proof (induction ops arbitrary: ord)
  case Nil
  then show ?case by simp
next
  case (Cons a ops)
  then show ?case by (cases a) (simp add: totals_applyOp)
qed

lemma totals_buildOrder: "totals_consistent (buildOrder oid uid its pay ship)"
  using totals_calculateTotals[of "newOrder oid uid its pay ship"]
  by (simp add: buildOrder_def Let_def totals_payment_upd totals_status_upd)

text \<open>
  Claim C2 (the order total). The equation
  \<^verbatim>\<open>total == subtotal + taxAmount - discountAmount + shippingAmount\<close> holds after
  \<^verbatim>\<open>calculateTotals\<close>, \<^verbatim>\<open>addItem\<close> and \<^verbatim>\<open>applyDiscount\<close> on any order, and after a
  \<^verbatim>\<open>removeItem\<close> that finds its product: they recompute the total. Each of the seven
  operations keeps the equation when it held before: \<^verbatim>\<open>updateStatus\<close>, \<^verbatim>\<open>updatePayment\<close>,
  \<^verbatim>\<open>updateShipping\<close> and a \<^verbatim>\<open>removeItem\<close> that finds nothing do not write the five
  fields. The order that \<^verbatim>\<open>createOrder\<close> builds satisfies it, and so does that order
  after any sequence of the seven operations with any arguments.
\<close>

theorem order_total_invariant:
  "totals_consistent (calculateTotals ord)
   \<and> totals_consistent (addItem item ord)
   \<and> totals_consistent (applyDiscount d ord)
   \<and> (findIndex (\<lambda>it. item_productId it = pid) (items ord) \<noteq> None \<longrightarrow>
        totals_consistent (removeItem pid ord))
   \<and> (totals_consistent ord \<longrightarrow> totals_consistent (applyOp now op ord))
   \<and> totals_consistent (buildOrder oid uid its pay ship)
   \<and> totals_consistent (runOps ops (buildOrder oid uid its pay ship))"
  using totals_calculateTotals totals_addItem totals_applyDiscount totals_removeItem
    totals_applyOp totals_buildOrder totals_runOps
  by blast

theorem order_total_invariant_witness:
  "findIndex (\<lambda>it. item_productId it = ''p1'')
     (items (buildOrder ''o1'' ''u1''
        [\<lparr>item_productId = ''p1'', item_price = 20, item_salePrice = Some 15, item_quantity = 2,
          item_subtotal = 0, item_taxes = 0, item_discount = 0, item_total = 0\<rparr>] None None))
     \<noteq> None
   \<and> totals_consistent
       (removeItem ''p1'' (buildOrder ''o1'' ''u1''
          [\<lparr>item_productId = ''p1'', item_price = 20, item_salePrice = Some 15, item_quantity = 2,
            item_subtotal = 0, item_taxes = 0, item_discount = 0, item_total = 0\<rparr>] None None))
   \<and> totals_consistent
       (buildOrder ''o1'' ''u1''
          [\<lparr>item_productId = ''p1'', item_price = 20, item_salePrice = Some 15, item_quantity = 2,
            item_subtotal = 0, item_taxes = 0, item_discount = 0, item_total = 0\<rparr>] None None)
   \<and> totals_consistent
       (applyOp 7 (UpdateStatus Paid ''ok'') (buildOrder ''o1'' ''u1''
          [\<lparr>item_productId = ''p1'', item_price = 20, item_salePrice = Some 15, item_quantity = 2,
            item_subtotal = 0, item_taxes = 0, item_discount = 0, item_total = 0\<rparr>] None None))
   \<and> total (buildOrder ''o1'' ''u1''
          [\<lparr>item_productId = ''p1'', item_price = 20, item_salePrice = Some 15, item_quantity = 2,
            item_subtotal = 0, item_taxes = 0, item_discount = 0, item_total = 0\<rparr>] None None) = 30"
proof -
  let ?ord = "buildOrder ''o1'' ''u1''
        [\<lparr>item_productId = ''p1'', item_price = 20, item_salePrice = Some 15, item_quantity = 2,
          item_subtotal = 0, item_taxes = 0, item_discount = 0, item_total = 0\<rparr>] None None"
  have found: "findIndex (\<lambda>it. item_productId it = ''p1'') (items ?ord) \<noteq> None"
    by (simp add: buildOrder_def newOrder_def calculateTotals_def recalcItem_def Let_def)
  have tot: "total ?ord = 30"
    by (simp add: buildOrder_def newOrder_def calculateTotals_def recalcItem_def
        effectivePrice_def Let_def)
  have built: "totals_consistent ?ord"
    using order_total_invariant[of ?ord] by (simp add: totals_consistent_def)
  show ?thesis
    using found tot built
      order_total_invariant[of ?ord _ _ "''p1''" 7 "UpdateStatus Paid ''ok''"]
    by blast
qed

text \<open>
  Claim C9 (idempotence of the totals). Running \<^verbatim>\<open>calculateTotals\<close> a second time gives
  the very same order as running it once, so the same \<^verbatim>\<open>subtotal\<close>, \<^verbatim>\<open>taxAmount\<close> and
  \<^verbatim>\<open>total\<close> and the same \<^verbatim>\<open>subtotal\<close> and \<^verbatim>\<open>total\<close> of every item. The subtotal of an item is
  its effective unit price times its quantity, and the effective unit price is the sale
  price when that is greater than 0 and the price otherwise.
\<close>

theorem calculateTotals_idempotent:
  "calculateTotals (calculateTotals ord) = calculateTotals ord
   \<and> subtotal (calculateTotals (calculateTotals ord)) = subtotal (calculateTotals ord)
   \<and> taxAmount (calculateTotals (calculateTotals ord)) = taxAmount (calculateTotals ord)
   \<and> total (calculateTotals (calculateTotals ord)) = total (calculateTotals ord)
   \<and> map item_subtotal (items (calculateTotals (calculateTotals ord)))
       = map item_subtotal (items (calculateTotals ord))
   \<and> map item_total (items (calculateTotals (calculateTotals ord)))
       = map item_total (items (calculateTotals ord))
   \<and> map item_subtotal (items (calculateTotals ord))
       = map (\<lambda>it. effectivePrice it * of_int (item_quantity it)) (items ord)
   \<and> effectivePrice it
       = (if \<exists>s. item_salePrice it = Some s \<and> s > 0 then the (item_salePrice it)
          else item_price it)"
proof -
  have "map item_subtotal (items (calculateTotals ord))
      = map (\<lambda>it. effectivePrice it * of_int (item_quantity it)) (items ord)"
    by (simp add: calculateTotals_def Let_def recalcItem_def)
  moreover have "effectivePrice it
      = (if \<exists>s. item_salePrice it = Some s \<and> s > 0 then the (item_salePrice it)
         else item_price it)"
    by (auto simp: effectivePrice_def split: option.splits)
  ultimately show ?thesis
    by (simp only: calculateTotals_idem simp_thms)
qed

text \<open>
  Claim C10 (\<^verbatim>\<open>removeItem\<close> of an absent product). When no item of the order has the
  given product id, \<^verbatim>\<open>removeItem\<close> returns the order as it is: the items, the totals and
  every other field are the same, and nothing is thrown.
\<close>

theorem removeItem_absent_unchanged:
  assumes "pid \<notin> item_productId ` set (items ord)"
  shows "removeItem pid ord = ord"
proof -
  have "findIndex (\<lambda>it. item_productId it = pid) (items ord) = None"
    using assms by (auto simp: findIndex_None)
  then show ?thesis by (simp add: removeItem_def)
qed

theorem removeItem_absent_unchanged_witness:
  "''p2'' \<notin> item_productId ` set (items (newOrder ''o1'' ''u1''
        [\<lparr>item_productId = ''p1'', item_price = 20, item_salePrice = Some 15, item_quantity = 2,
          item_subtotal = 0, item_taxes = 0, item_discount = 0, item_total = 0\<rparr>] None None))
   \<and> removeItem ''p2'' (newOrder ''o1'' ''u1''
        [\<lparr>item_productId = ''p1'', item_price = 20, item_salePrice = Some 15, item_quantity = 2,
          item_subtotal = 0, item_taxes = 0, item_discount = 0, item_total = 0\<rparr>] None None)
     = newOrder ''o1'' ''u1''
        [\<lparr>item_productId = ''p1'', item_price = 20, item_salePrice = Some 15, item_quantity = 2,
          item_subtotal = 0, item_taxes = 0, item_discount = 0, item_total = 0\<rparr>] None None"
proof -
  let ?ord = "newOrder ''o1'' ''u1''
        [\<lparr>item_productId = ''p1'', item_price = 20, item_salePrice = Some 15, item_quantity = 2,
          item_subtotal = 0, item_taxes = 0, item_discount = 0, item_total = 0\<rparr>] None None"
  have absent: "''p2'' \<notin> item_productId ` set (items ?ord)"
    by (simp add: newOrder_def)
  from absent removeItem_absent_unchanged[OF absent] show ?thesis by blast
qed

section \<open>Properties of the order controller\<close>

lemma updateStatus_Cancelled:
  "status (updateStatus Cancelled notes now ord) = Cancelled"
  "cancelledAt (updateStatus Cancelled notes now ord) \<noteq> None"
  "\<exists>t. cancelledAt (updateStatus Cancelled notes now ord) = Some t"
  "cancelledAt ord = None \<Longrightarrow> cancelledAt (updateStatus Cancelled notes now ord) = Some now"
  by (simp_all add: updateStatus_def Let_def)

text \<open>
  Claim C4, as the code has it (cancellation). \<^verbatim>\<open>cancelOrder\<close> rejects every caller, an
  admin too, with status 400 when the order is delivered, completed, cancelled or
  refunded. From every other status: an admin may cancel; a caller who is neither admin
  nor owner is rejected with status 403; an owner who is not an admin may cancel a
  pending or payment_pending order and is rejected with status 403 in any other status
  (so an owner cancelling a processing order is rejected and an owner cancelling a
  pending order succeeds). Every successful cancellation stores the order with status
  cancelled and with \<^verbatim>\<open>cancelledAt\<close> set (to the current time when it was not set before)
  and publishes \<^verbatim>\<open>order.cancelled\<close>; a rejected one changes nothing. An admin can still
  move an order in any status to cancelled through \<^verbatim>\<open>updateOrderStatus\<close>, which records
  \<^verbatim>\<open>cancelledAt\<close> in the same way.
\<close>

theorem cancelOrder_authorization:
  assumes "orders st oid = Some ord"
  shows "(status ord \<in> {Delivered, Completed, Cancelled, Refunded} \<longrightarrow>
            cancelOrder now user oid reason st
              = (st, Inl (AppError ''Esta orden no puede ser cancelada'' 400)))
       \<and> (status ord \<notin> {Delivered, Completed, Cancelled, Refunded}
            \<and> \<not> isAdmin user \<and> \<not> isOwner user ord \<longrightarrow>
            cancelOrder now user oid reason st
              = (st, Inl (AppError ''No tienes permiso para cancelar esta orden'' 403)))
       \<and> (status ord \<notin> {Delivered, Completed, Cancelled, Refunded}
            \<and> \<not> isAdmin user \<and> isOwner user ord \<and> status ord \<notin> {Pending, PaymentPending} \<longrightarrow>
            cancelOrder now user oid reason st
              = (st, Inl (AppError ''No puedes cancelar una orden en este estado'' 403)))
       \<and> (\<not> mayCancel user ord \<longrightarrow>
            fst (cancelOrder now user oid reason st) = st
            \<and> (\<exists>msg code. snd (cancelOrder now user oid reason st) = Inl (AppError msg code)
                  \<and> (code = 400 \<or> code = 403)))
       \<and> (mayCancel user ord \<longrightarrow>
            (\<exists>ord'. snd (cancelOrder now user oid reason st) = Inr ord'
               \<and> orders (fst (cancelOrder now user oid reason st)) oid = Some ord'
               \<and> status ord' = Cancelled
               \<and> cancelledAt ord' \<noteq> None
               \<and> (cancelledAt ord = None \<longrightarrow> cancelledAt ord' = Some now)
               \<and> outbox (fst (cancelOrder now user oid reason st))
                    = outbox st @ [\<lparr>pe_routingKey = ''order.cancelled'', pe_orderId = oid,
                                    pe_items = itemRefs ord'\<rparr>]))
       \<and> (mayCancel user ord \<longleftrightarrow>
            status ord \<notin> {Delivered, Completed, Cancelled, Refunded}
            \<and> (isAdmin user \<or> (isOwner user ord \<and> status ord \<in> {Pending, PaymentPending})))
       \<and> (isAdmin user \<longrightarrow>
            (\<exists>ord'. snd (updateOrderStatus now user oid (Some Cancelled) reason st) = Inr ord'
               \<and> orders (fst (updateOrderStatus now user oid (Some Cancelled) reason st)) oid
                    = Some ord'
               \<and> status ord' = Cancelled \<and> cancelledAt ord' \<noteq> None))"
proof -
  have a: "status ord \<in> {Delivered, Completed, Cancelled, Refunded} \<longrightarrow>
            cancelOrder now user oid reason st
              = (st, Inl (AppError ''Esta orden no puede ser cancelada'' 400))"
    using assms by (auto simp: cancelOrder_def)
  have a1: "status ord \<notin> {Delivered, Completed, Cancelled, Refunded}
            \<and> \<not> isAdmin user \<and> \<not> isOwner user ord \<longrightarrow>
            cancelOrder now user oid reason st
              = (st, Inl (AppError ''No tienes permiso para cancelar esta orden'' 403))"
    using assms by (auto simp: cancelOrder_def)
  have a2: "status ord \<notin> {Delivered, Completed, Cancelled, Refunded}
            \<and> \<not> isAdmin user \<and> isOwner user ord \<and> status ord \<notin> {Pending, PaymentPending} \<longrightarrow>
            cancelOrder now user oid reason st
              = (st, Inl (AppError ''No puedes cancelar una orden en este estado'' 403))"
    using assms by (auto simp: cancelOrder_def)
  have b: "\<not> mayCancel user ord \<longrightarrow>
            fst (cancelOrder now user oid reason st) = st
            \<and> (\<exists>msg code. snd (cancelOrder now user oid reason st) = Inl (AppError msg code)
                  \<and> (code = 400 \<or> code = 403))"
    using assms by (auto simp: cancelOrder_def mayCancel_def)
  have c: "mayCancel user ord \<longrightarrow>
            (\<exists>ord'. snd (cancelOrder now user oid reason st) = Inr ord'
               \<and> orders (fst (cancelOrder now user oid reason st)) oid = Some ord'
               \<and> status ord' = Cancelled
               \<and> cancelledAt ord' \<noteq> None
               \<and> (cancelledAt ord = None \<longrightarrow> cancelledAt ord' = Some now)
               \<and> outbox (fst (cancelOrder now user oid reason st))
                    = outbox st @ [\<lparr>pe_routingKey = ''order.cancelled'', pe_orderId = oid,
                                    pe_items = itemRefs ord'\<rparr>])"
  proof
    assume m: "mayCancel user ord"
    let ?n = "if reason = [] then ''Cancelado por el usuario/administrador'' else reason"
    have "cancelOrder now user oid reason st
        = (st\<lparr>orders := (orders st)(oid \<mapsto> updateStatus Cancelled ?n now ord),
              outbox := outbox st @
                [\<lparr>pe_routingKey = ''order.cancelled'', pe_orderId = oid,
                  pe_items = itemRefs (updateStatus Cancelled ?n now ord)\<rparr>]\<rparr>,
           Inr (updateStatus Cancelled ?n now ord))"
      using assms m unfolding cancelOrder_def mayCancel_def Let_def
      by (simp split del: if_split) (auto split del: if_split)
    then show "\<exists>ord'. snd (cancelOrder now user oid reason st) = Inr ord'
               \<and> orders (fst (cancelOrder now user oid reason st)) oid = Some ord'
               \<and> status ord' = Cancelled
               \<and> cancelledAt ord' \<noteq> None
               \<and> (cancelledAt ord = None \<longrightarrow> cancelledAt ord' = Some now)
               \<and> outbox (fst (cancelOrder now user oid reason st))
                    = outbox st @ [\<lparr>pe_routingKey = ''order.cancelled'', pe_orderId = oid,
                                    pe_items = itemRefs ord'\<rparr>]"
      by (simp add: updateStatus_Cancelled)
  qed
  have d: "mayCancel user ord \<longleftrightarrow>
            status ord \<notin> {Delivered, Completed, Cancelled, Refunded}
            \<and> (isAdmin user \<or> (isOwner user ord \<and> status ord \<in> {Pending, PaymentPending}))"
    by (simp add: mayCancel_def)
  have e: "isAdmin user \<longrightarrow>
            (\<exists>ord'. snd (updateOrderStatus now user oid (Some Cancelled) reason st) = Inr ord'
               \<and> orders (fst (updateOrderStatus now user oid (Some Cancelled) reason st)) oid
                    = Some ord'
               \<and> status ord' = Cancelled \<and> cancelledAt ord' \<noteq> None)"
    using assms by (simp add: updateOrderStatus_def isAdmin_def Let_def updateStatus_Cancelled)
  from a a1 a2 b c d e show ?thesis
    by (intro conjI)
qed

theorem cancelOrder_authorization_witness:
  "(case snd (cancelOrder 1000 \<lparr>user_id = ''u1'', user_role = ''customer''\<rparr> ''o1'' []
          \<lparr>orders = [''o1'' \<mapsto> buildOrder ''o1'' ''u1''
              [\<lparr>item_productId = ''p1'', item_price = 20, item_salePrice = Some 15,
                item_quantity = 2, item_subtotal = 0, item_taxes = 0, item_discount = 0,
                item_total = 0\<rparr>]
              (Some \<lparr>pay_method = ''cash'', pay_transactionId = None, pay_amount = 0,
                     pay_status = PayPending, paidAt = None\<rparr>) None],
           outbox = []\<rparr>) of
      Inl e \<Rightarrow> False
    | Inr ord' \<Rightarrow> status ord' = Cancelled \<and> cancelledAt ord' = Some 1000)
   \<and> cancelOrder 1000 \<lparr>user_id = ''u1'', user_role = ''customer''\<rparr> ''o1'' []
        \<lparr>orders = [''o1'' \<mapsto> (buildOrder ''o1'' ''u1''
            [\<lparr>item_productId = ''p1'', item_price = 20, item_salePrice = Some 15,
              item_quantity = 2, item_subtotal = 0, item_taxes = 0, item_discount = 0,
              item_total = 0\<rparr>]
            (Some \<lparr>pay_method = ''cash'', pay_transactionId = None, pay_amount = 0,
                   pay_status = PayPending, paidAt = None\<rparr>) None)\<lparr>status := Processing\<rparr>],
         outbox = []\<rparr>
     = (\<lparr>orders = [''o1'' \<mapsto> (buildOrder ''o1'' ''u1''
            [\<lparr>item_productId = ''p1'', item_price = 20, item_salePrice = Some 15,
              item_quantity = 2, item_subtotal = 0, item_taxes = 0, item_discount = 0,
              item_total = 0\<rparr>]
            (Some \<lparr>pay_method = ''cash'', pay_transactionId = None, pay_amount = 0,
                   pay_status = PayPending, paidAt = None\<rparr>) None)\<lparr>status := Processing\<rparr>],
         outbox = []\<rparr>,
        Inl (AppError ''No puedes cancelar una orden en este estado'' 403))
   \<and> cancelOrder 1000 \<lparr>user_id = ''u2'', user_role = ''customer''\<rparr> ''o1'' []
        \<lparr>orders = [''o1'' \<mapsto> buildOrder ''o1'' ''u1''
            [\<lparr>item_productId = ''p1'', item_price = 20, item_salePrice = Some 15,
              item_quantity = 2, item_subtotal = 0, item_taxes = 0, item_discount = 0,
              item_total = 0\<rparr>]
            (Some \<lparr>pay_method = ''cash'', pay_transactionId = None, pay_amount = 0,
                   pay_status = PayPending, paidAt = None\<rparr>) None],
         outbox = []\<rparr>
     = (\<lparr>orders = [''o1'' \<mapsto> buildOrder ''o1'' ''u1''
            [\<lparr>item_productId = ''p1'', item_price = 20, item_salePrice = Some 15,
              item_quantity = 2, item_subtotal = 0, item_taxes = 0, item_discount = 0,
              item_total = 0\<rparr>]
            (Some \<lparr>pay_method = ''cash'', pay_transactionId = None, pay_amount = 0,
                   pay_status = PayPending, paidAt = None\<rparr>) None],
         outbox = []\<rparr>,
        Inl (AppError ''No tienes permiso para cancelar esta orden'' 403))
   \<and> (case snd (cancelOrder 1000 \<lparr>user_id = ''root'', user_role = ''admin''\<rparr> ''o1'' []
          \<lparr>orders = [''o1'' \<mapsto> (buildOrder ''o1'' ''u1''
              [\<lparr>item_productId = ''p1'', item_price = 20, item_salePrice = Some 15,
                item_quantity = 2, item_subtotal = 0, item_taxes = 0, item_discount = 0,
                item_total = 0\<rparr>]
              (Some \<lparr>pay_method = ''cash'', pay_transactionId = None, pay_amount = 0,
                     pay_status = PayPending, paidAt = None\<rparr>) None)\<lparr>status := Processing\<rparr>],
           outbox = []\<rparr>) of
      Inl e \<Rightarrow> False
    | Inr ord' \<Rightarrow> status ord' = Cancelled \<and> cancelledAt ord' = Some 1000)"
proof -
  let ?owner = "\<lparr>user_id = ''u1'', user_role = ''customer''\<rparr>"
  let ?other = "\<lparr>user_id = ''u2'', user_role = ''customer''\<rparr>"
  let ?admin = "\<lparr>user_id = ''root'', user_role = ''admin''\<rparr>"
  let ?pending = "buildOrder ''o1'' ''u1''
              [\<lparr>item_productId = ''p1'', item_price = 20, item_salePrice = Some 15,
                item_quantity = 2, item_subtotal = 0, item_taxes = 0, item_discount = 0,
                item_total = 0\<rparr>]
              (Some \<lparr>pay_method = ''cash'', pay_transactionId = None, pay_amount = 0,
                     pay_status = PayPending, paidAt = None\<rparr>) None"
  let ?processing = "?pending\<lparr>status := Processing\<rparr>"
  let ?st1 = "\<lparr>orders = [''o1'' \<mapsto> ?pending], outbox = []\<rparr>"
  let ?st2 = "\<lparr>orders = [''o1'' \<mapsto> ?processing], outbox = []\<rparr>"
  have s1: "orders ?st1 ''o1'' = Some ?pending" and s2: "orders ?st2 ''o1'' = Some ?processing"
    by simp_all
  have facts: "status ?pending = Pending" "userId ?pending = ''u1''" "cancelledAt ?pending = None"
    by (simp_all add: buildOrder_def newOrder_def calculateTotals_def Let_def)
  have m1: "mayCancel ?owner ?pending"
    by (simp add: mayCancel_def isAdmin_def isOwner_def facts)
  have m3: "mayCancel ?admin ?processing"
    by (simp add: mayCancel_def isAdmin_def isOwner_def)
  have n2: "status ?processing \<notin> {Delivered, Completed, Cancelled, Refunded}
      \<and> \<not> isAdmin ?owner \<and> isOwner ?owner ?processing
      \<and> status ?processing \<notin> {Pending, PaymentPending}"
    by (simp add: isAdmin_def isOwner_def facts)
  have n4: "status ?pending \<notin> {Delivered, Completed, Cancelled, Refunded}
      \<and> \<not> isAdmin ?other \<and> \<not> isOwner ?other ?pending"
    by (simp add: isAdmin_def isOwner_def facts)
  have "\<exists>ord'. snd (cancelOrder 1000 ?owner ''o1'' [] ?st1) = Inr ord'
      \<and> status ord' = Cancelled \<and> cancelledAt ord' = Some 1000"
    using cancelOrder_authorization[OF s1, of 1000 ?owner "[]"] m1 facts(3) by blast
  then have w1: "case snd (cancelOrder 1000 ?owner ''o1'' [] ?st1) of
      Inl e \<Rightarrow> False
    | Inr ord' \<Rightarrow> status ord' = Cancelled \<and> cancelledAt ord' = Some 1000"
    by auto
  have w2: "cancelOrder 1000 ?owner ''o1'' [] ?st2
      = (?st2, Inl (AppError ''No puedes cancelar una orden en este estado'' 403))"
    using cancelOrder_authorization[OF s2, of 1000 ?owner "[]"] n2 by blast
  have w3: "cancelOrder 1000 ?other ''o1'' [] ?st1
      = (?st1, Inl (AppError ''No tienes permiso para cancelar esta orden'' 403))"
    using cancelOrder_authorization[OF s1, of 1000 ?other "[]"] n4 by blast
  have c2: "cancelledAt ?processing = None"
    using facts(3) by simp
  have "\<exists>ord'. snd (cancelOrder 1000 ?admin ''o1'' [] ?st2) = Inr ord'
      \<and> status ord' = Cancelled \<and> cancelledAt ord' = Some 1000"
    using cancelOrder_authorization[OF s2, of 1000 ?admin "[]"] m3 c2 by blast
  then have w4: "case snd (cancelOrder 1000 ?admin ''o1'' [] ?st2) of
      Inl e \<Rightarrow> False
    | Inr ord' \<Rightarrow> status ord' = Cancelled \<and> cancelledAt ord' = Some 1000"
    by auto
  from w1 w2 w3 w4 show ?thesis
    by (intro conjI)
qed

text \<open>
  The claim as it is written fails on \<^verbatim>\<open>cancelOrder\<close>: an admin cancelling a delivered
  order is rejected with status 400 and nothing changes.
\<close>

theorem cancelOrder_admin_delivered_counterexample:
  "isAdmin \<lparr>user_id = ''root'', user_role = ''admin''\<rparr>
   \<and> status ((buildOrder ''o1'' ''u1''
         [\<lparr>item_productId = ''p1'', item_price = 20, item_salePrice = Some 15,
           item_quantity = 2, item_subtotal = 0, item_taxes = 0, item_discount = 0,
           item_total = 0\<rparr>]
         (Some \<lparr>pay_method = ''cash'', pay_transactionId = None, pay_amount = 0,
                pay_status = PayPending, paidAt = None\<rparr>) None)\<lparr>status := Delivered\<rparr>) = Delivered
   \<and> cancelOrder 1000 \<lparr>user_id = ''root'', user_role = ''admin''\<rparr> ''o1'' []
        \<lparr>orders = [''o1'' \<mapsto> (buildOrder ''o1'' ''u1''
            [\<lparr>item_productId = ''p1'', item_price = 20, item_salePrice = Some 15,
              item_quantity = 2, item_subtotal = 0, item_taxes = 0, item_discount = 0,
              item_total = 0\<rparr>]
            (Some \<lparr>pay_method = ''cash'', pay_transactionId = None, pay_amount = 0,
                   pay_status = PayPending, paidAt = None\<rparr>) None)\<lparr>status := Delivered\<rparr>],
         outbox = []\<rparr>
     = (\<lparr>orders = [''o1'' \<mapsto> (buildOrder ''o1'' ''u1''
            [\<lparr>item_productId = ''p1'', item_price = 20, item_salePrice = Some 15,
              item_quantity = 2, item_subtotal = 0, item_taxes = 0, item_discount = 0,
              item_total = 0\<rparr>]
            (Some \<lparr>pay_method = ''cash'', pay_transactionId = None, pay_amount = 0,
                   pay_status = PayPending, paidAt = None\<rparr>) None)\<lparr>status := Delivered\<rparr>],
         outbox = []\<rparr>,
        Inl (AppError ''Esta orden no puede ser cancelada'' 400))"
  by (simp add: cancelOrder_def isAdmin_def)

text \<open>
  Claim C5 (status lock). For an order that is shipped, delivered, completed, cancelled
  or refunded, the three operations that change its content, \<^verbatim>\<open>addOrderItem\<close>,
  \<^verbatim>\<open>removeOrderItem\<close> and \<^verbatim>\<open>applyDiscount\<close>, are rejected with an error of status 400 for
  every caller and every argument, and the stored orders and the outbox are what they
  were. With a well-formed request the error is the one of the status check. The check
  is made by these controller functions; the methods of the model have none.
\<close>

theorem locked_order_rejects_content_changes:
  assumes "orders st oid = Some ord"
    and "status ord \<in> {Shipped, Delivered, Completed, Cancelled, Refunded}"
  shows "fst (addOrderItem getProductInfo user oid pid qty st) = st
       \<and> (\<exists>msg. snd (addOrderItem getProductInfo user oid pid qty st) = Inl (AppError msg 400))
       \<and> (pid \<noteq> [] \<and> 0 < qty \<longrightarrow>
            addOrderItem getProductInfo user oid pid qty st
              = (st, Inl (AppError ''No se puede modificar una orden en este estado'' 400)))
       \<and> removeOrderItem user oid pid st
            = (st, Inl (AppError ''No se puede modificar una orden en este estado'' 400))
       \<and> fst (applyDiscount_controller user oid code st) = st
       \<and> (\<exists>msg. snd (applyDiscount_controller user oid code st) = Inl (AppError msg 400))
       \<and> (code \<noteq> [] \<longrightarrow>
            applyDiscount_controller user oid code st
              = (st, Inl (AppError ''No se puede modificar una orden en este estado'' 400)))"
proof -
  have locked: "contentLocked ord"
    using assms(2) by (auto simp: contentLocked_def)
  have "fst (addOrderItem getProductInfo user oid pid qty st) = st
       \<and> (\<exists>msg. snd (addOrderItem getProductInfo user oid pid qty st) = Inl (AppError msg 400))
       \<and> (pid \<noteq> [] \<and> 0 < qty \<longrightarrow>
            addOrderItem getProductInfo user oid pid qty st
              = (st, Inl (AppError ''No se puede modificar una orden en este estado'' 400)))"
    using assms(1) locked by (simp add: addOrderItem_def)
  moreover have "removeOrderItem user oid pid st
            = (st, Inl (AppError ''No se puede modificar una orden en este estado'' 400))"
    using assms(1) locked by (simp add: removeOrderItem_def)
  moreover have "fst (applyDiscount_controller user oid code st) = st
       \<and> (\<exists>msg. snd (applyDiscount_controller user oid code st) = Inl (AppError msg 400))
       \<and> (code \<noteq> [] \<longrightarrow>
            applyDiscount_controller user oid code st
              = (st, Inl (AppError ''No se puede modificar una orden en este estado'' 400)))"
    using assms(1) locked by (simp add: applyDiscount_controller_def)
  ultimately show ?thesis by blast
qed

theorem locked_order_rejects_content_changes_witness:
  "addOrderItem (\<lambda>p. Inr \<lparr>prod_price = 20, prod_salePrice = None\<rparr>)
       \<lparr>user_id = ''root'', user_role = ''admin''\<rparr> ''o1'' ''p1'' 2
       \<lparr>orders = [''o1'' \<mapsto> (newOrder ''o1'' ''u1'' [] None None)\<lparr>status := Shipped\<rparr>],
        outbox = []\<rparr>
     = (\<lparr>orders = [''o1'' \<mapsto> (newOrder ''o1'' ''u1'' [] None None)\<lparr>status := Shipped\<rparr>],
         outbox = []\<rparr>,
        Inl (AppError ''No se puede modificar una orden en este estado'' 400))
   \<and> removeOrderItem \<lparr>user_id = ''root'', user_role = ''admin''\<rparr> ''o1'' ''p1''
       \<lparr>orders = [''o1'' \<mapsto> (newOrder ''o1'' ''u1'' [] None None)\<lparr>status := Shipped\<rparr>],
        outbox = []\<rparr>
     = (\<lparr>orders = [''o1'' \<mapsto> (newOrder ''o1'' ''u1'' [] None None)\<lparr>status := Shipped\<rparr>],
         outbox = []\<rparr>,
        Inl (AppError ''No se puede modificar una orden en este estado'' 400))
   \<and> applyDiscount_controller \<lparr>user_id = ''root'', user_role = ''admin''\<rparr> ''o1'' ''SAVE10''
       \<lparr>orders = [''o1'' \<mapsto> (newOrder ''o1'' ''u1'' [] None None)\<lparr>status := Shipped\<rparr>],
        outbox = []\<rparr>
     = (\<lparr>orders = [''o1'' \<mapsto> (newOrder ''o1'' ''u1'' [] None None)\<lparr>status := Shipped\<rparr>],
         outbox = []\<rparr>,
        Inl (AppError ''No se puede modificar una orden en este estado'' 400))"
proof -
  let ?ord = "(newOrder ''o1'' ''u1'' [] None None)\<lparr>status := Shipped\<rparr>"
  let ?st = "\<lparr>orders = [''o1'' \<mapsto> ?ord], outbox = []\<rparr>"
  have h1: "orders ?st ''o1'' = Some ?ord"
    by simp
  have h2: "status ?ord \<in> {Shipped, Delivered, Completed, Cancelled, Refunded}"
    by simp
  have h3: "''p1'' \<noteq> [] \<and> (0::int) < 2" and h4: "''SAVE10'' \<noteq> []"
    by simp_all
  show ?thesis
    using h3 h4
      locked_order_rejects_content_changes[OF h1 h2,
        of "\<lambda>p. Inr \<lparr>prod_price = 20, prod_salePrice = None\<rparr>"
           "\<lparr>user_id = ''root'', user_role = ''admin''\<rparr>" "''p1''" 2 "''SAVE10''"]
    by blast
qed

section \<open>Properties of the circuit breaker\<close>

lemma fire_counted_failure:
  assumes "countedFailure b req" and "req \<noteq> Rejects NullError" and "state b \<noteq> OPEN"
  shows "breaker (fire clk req b) =
           (let b1 = b\<lparr>failureCount := failureCount b + 1, lastFailureTime := Some (t_fail clk)\<rparr>
            in if state b = CLOSED \<and> failureCount b + 1 \<ge> failureThreshold b
                 then toOpen (t_open clk) b1
               else if state b = HALF_OPEN then toOpen (t_open clk) b1
               else b1)"
    and "calledIn (fire clk req b) = Some (state b)"
  using assms
  by (cases req;
      auto simp: fire_def countedFailure_def handleFailure_def fallbackOrThrow_def
        executeWithTimeout_def Let_def split: option.splits)+

lemma fire_counted_null:
  assumes "isFailure b NullError" and "state b \<noteq> OPEN"
  shows "fire clk (Rejects NullError) b =
           \<lparr>outcome = Inl MessageTypeError,
            breaker = b\<lparr>failureCount := failureCount b + 1,
                         lastFailureTime := Some (t_fail clk)\<rparr>,
            calledIn = Some (state b)\<rparr>"
  using assms
  by (simp add: fire_def handleFailure_def executeWithTimeout_def Let_def)

lemma fire_closed_failure_state:
  assumes "countedFailure b req" and "req \<noteq> Rejects NullError" and "state b = CLOSED"
  shows "state (breaker (fire clk req b))
           = (if failureCount b + 1 \<ge> failureThreshold b then OPEN else CLOSED)"
    and "failureCount b + 1 < failureThreshold b \<Longrightarrow>
           failureCount (breaker (fire clk req b)) = failureCount b + 1"
    and "failureThreshold (breaker (fire clk req b)) = failureThreshold b"
    and "isFailure (breaker (fire clk req b)) = isFailure b"
  using assms fire_counted_failure(1)[of b req clk]
  by (simp_all add: Let_def toOpen_def)

lemma fire_half_open_failure_state:
  assumes "countedFailure b req" and "req \<noteq> Rejects NullError" and "state b = HALF_OPEN"
  shows "state (breaker (fire clk req b)) = OPEN"
  using assms fire_counted_failure(1)[of b req clk]
  by (simp add: Let_def toOpen_def)

lemma fire_open_short_circuit:
  assumes "state b = OPEN" and "\<not> resetElapsed clk b"
  shows "fire clk req b = \<lparr>outcome = handleOpenCircuit b, breaker = b, calledIn = None\<rparr>"
  using assms by (simp add: fire_def)

lemma fire_open_probe:
  assumes "state b = OPEN" and "resetElapsed clk b"
  shows "calledIn (fire clk req b) = Some HALF_OPEN"
    and "fire clk req b = fire clk req (toHalfOpen b)"
  using assms
  by (auto simp: fire_def toHalfOpen_def Let_def split: sum.splits prod.splits)

lemma fire_half_open_success:
  assumes "succeeds req" and "state b = HALF_OPEN"
  shows "breaker (fire clk req b) =
           (if successCount b + 1 \<ge> successThreshold b
              then toClose (b\<lparr>successCount := successCount b + 1\<rparr>)
            else b\<lparr>successCount := successCount b + 1\<rparr>)"
  using assms
  by (cases req)
     (simp_all add: succeeds_def fire_def executeWithTimeout_def handleSuccess_def Let_def)

lemma fireAll_append: "fireAll (xs @ ys) b = fireAll ys (fireAll xs b)"
  by (induction xs arbitrary: b) auto

lemma half_open_successes_below:
  assumes "state b = HALF_OPEN"
    and "\<forall>c \<in> set calls. succeeds (snd c)"
    and "successCount b + int (length calls) < successThreshold b"
  shows "state (fireAll calls b) = HALF_OPEN
       \<and> successCount (fireAll calls b) = successCount b + int (length calls)
       \<and> successThreshold (fireAll calls b) = successThreshold b"
  using assms
proof (induction calls arbitrary: b)
  case Nil
  then show ?case by simp
next
  case (Cons c calls)
  obtain clk req where c: "c = (clk, req)" by (cases c)
  let ?b = "breaker (fire clk req b)"
  have step: "?b = b\<lparr>successCount := successCount b + 1\<rparr>"
    using Cons.prems c fire_half_open_success[of req b clk] by simp
  have "state (fireAll calls ?b) = HALF_OPEN
       \<and> successCount (fireAll calls ?b) = successCount ?b + int (length calls)
       \<and> successThreshold (fireAll calls ?b) = successThreshold ?b"
    using Cons.prems step by (intro Cons.IH) simp_all
  then show ?case using c step by simp
qed

lemma half_open_successes_close:
  assumes "state b = HALF_OPEN"
    and "\<forall>c \<in> set calls. succeeds (snd c)"
    and "calls \<noteq> []"
    and "successCount b + int (length calls) = successThreshold b"
  shows "state (fireAll calls b) = CLOSED"
proof -
  obtain front c where split: "calls = front @ [c]"
    using assms(3) by (cases calls rule: rev_cases) auto
  obtain clk req where c: "c = (clk, req)" by (cases c)
  let ?h = "fireAll front b"
  have below: "state ?h = HALF_OPEN
       \<and> successCount ?h = successCount b + int (length front)
       \<and> successThreshold ?h = successThreshold b"
    using assms split by (intro half_open_successes_below) auto
  have "succeeds req"
    using assms(2) split c by simp
  then have "breaker (fire clk req ?h) = toClose (?h\<lparr>successCount := successCount ?h + 1\<rparr>)"
    using below assms(4) split fire_half_open_success[of req ?h clk] by simp
  then show ?thesis
    using split c by (simp add: fireAll_append toClose_def)
qed

lemma countedFailure_same_classifier:
  "isFailure b' = isFailure b \<Longrightarrow> countedFailure b' req = countedFailure b req"
  by (simp add: countedFailure_def split: sum.splits)

lemma three_failures_open:
  assumes "state b = CLOSED" and "failureCount b = 0" and "failureThreshold b = 3"
    and "countedFailure b r1" and "countedFailure b r2" and "countedFailure b r3"
    and "r1 \<noteq> Rejects NullError" and "r2 \<noteq> Rejects NullError" and "r3 \<noteq> Rejects NullError"
  shows "state (fireAll [(c1, r1)] b) = CLOSED"
    and "state (fireAll [(c1, r1), (c2, r2)] b) = CLOSED"
    and "state (fireAll [(c1, r1), (c2, r2), (c3, r3)] b) = OPEN"
proof -
  let ?b1 = "breaker (fire c1 r1 b)"
  let ?b2 = "breaker (fire c2 r2 ?b1)"
  have b1: "state ?b1 = CLOSED" "failureCount ?b1 = 1" "failureThreshold ?b1 = 3"
    "isFailure ?b1 = isFailure b"
    using assms fire_closed_failure_state[of b r1 c1] by simp_all
  have f2: "countedFailure ?b1 r2"
    using assms(5) countedFailure_same_classifier[OF b1(4)] by simp
  have b2: "state ?b2 = CLOSED" "failureCount ?b2 = 2" "failureThreshold ?b2 = 3"
    "isFailure ?b2 = isFailure b"
    using b1 f2 assms(8) fire_closed_failure_state[of ?b1 r2 c2] by simp_all
  have f3: "countedFailure ?b2 r3"
    using assms(6) countedFailure_same_classifier[OF b2(4)] by simp
  have b3: "state (breaker (fire c3 r3 ?b2)) = OPEN"
    using b2 f3 assms(9) fire_closed_failure_state(1)[of ?b2 r3 c3] by simp
  show "state (fireAll [(c1, r1)] b) = CLOSED"
    using b1 by simp
  show "state (fireAll [(c1, r1), (c2, r2)] b) = CLOSED"
    using b2 by simp
  show "state (fireAll [(c1, r1), (c2, r2), (c3, r3)] b) = OPEN"
    using b3 by simp
qed

lemma default_counted:
  "isFailure b = defaultIsFailure \<Longrightarrow>
     countedFailure b req \<longleftrightarrow> (req = Hangs \<or> (\<exists>e. req = Rejects e \<and> e \<noteq> NullError))"
  by (cases req) (simp_all add: countedFailure_def executeWithTimeout_def defaultIsFailure_def)

text \<open>
  Claim C6, as the code has it (circuit breaker). A call fails when the wrapped function
  rejects or times out. A failure moves the breaker only when its classifier counts the
  error, and the default classifier counts every error but a thrown \<^verbatim>\<open>null\<close> or
  \<^verbatim>\<open>undefined\<close>; the statement is about counted failures whose error is not \<^verbatim>\<open>null\<close> or
  \<^verbatim>\<open>undefined\<close>. A breaker made with \<^verbatim>\<open>failureThreshold: 3\<close> starts closed with no failure
  counted; from such a state the first and the second of three consecutive such failing
  calls leave it closed and the third opens it. While it is open and the time since the
  last failure is at most \<^verbatim>\<open>resetTimeout\<close>, \<^verbatim>\<open>fire\<close> does not call the wrapped function and
  leaves the breaker as it is; the caller gets the result of the fallback on the
  open-circuit error, or that error when there is no fallback. Once more than
  \<^verbatim>\<open>resetTimeout\<close> has passed, the next \<^verbatim>\<open>fire\<close> moves the breaker to half-open and calls the
  wrapped function in that state. From half-open with no success counted,
  \<^verbatim>\<open>successThreshold\<close> consecutive successful calls close the breaker, which stays
  half-open before the last of them; and such a failing call in half-open opens it
  again.
\<close>

theorem circuit_breaker_transitions:
  "(opt_failureThreshold opts = Some 3 \<longrightarrow>
      state (newCircuitBreaker opts) = CLOSED
      \<and> failureCount (newCircuitBreaker opts) = 0
      \<and> failureThreshold (newCircuitBreaker opts) = 3)
   \<and> (state b = CLOSED \<and> failureCount b = 0 \<and> failureThreshold b = 3
        \<and> countedFailure b r1 \<and> countedFailure b r2 \<and> countedFailure b r3
        \<and> r1 \<noteq> Rejects NullError \<and> r2 \<noteq> Rejects NullError \<and> r3 \<noteq> Rejects NullError \<longrightarrow>
          state (fireAll [(c1, r1)] b) = CLOSED
          \<and> state (fireAll [(c1, r1), (c2, r2)] b) = CLOSED
          \<and> state (fireAll [(c1, r1), (c2, r2), (c3, r3)] b) = OPEN)
   \<and> (state b = OPEN \<and> lastFailureTime b = Some t \<and> t_fire clk - t \<le> resetTimeout b \<longrightarrow>
          fire clk req b = \<lparr>outcome = handleOpenCircuit b, breaker = b, calledIn = None\<rparr>
          \<and> handleOpenCircuit b
               = (case fallbackFn b of
                    None \<Rightarrow> Inl OpenCircuitError
                  | Some f \<Rightarrow> f OpenCircuitError))
   \<and> (state b = OPEN \<and> lastFailureTime b = Some t \<and> t \<noteq> 0 \<and> t_fire clk - t > resetTimeout b \<longrightarrow>
          calledIn (fire clk req b) = Some HALF_OPEN
          \<and> fire clk req b = fire clk req (toHalfOpen b)
          \<and> state (toHalfOpen b) = HALF_OPEN
          \<and> successCount (toHalfOpen b) = 0)
   \<and> (state b = HALF_OPEN \<and> successCount b = 0 \<and> calls \<noteq> []
        \<and> int (length calls) = successThreshold b
        \<and> (\<forall>c \<in> set calls. succeeds (snd c)) \<longrightarrow>
          state (fireAll calls b) = CLOSED
          \<and> (\<forall>n < length calls. state (fireAll (take n calls) b) = HALF_OPEN))
   \<and> (state b = HALF_OPEN \<and> countedFailure b req \<and> req \<noteq> Rejects NullError \<longrightarrow>
          state (breaker (fire clk req b)) = OPEN
          \<and> calledIn (fire clk req b) = Some HALF_OPEN)
   \<and> (isFailure b = defaultIsFailure \<longrightarrow>
          (countedFailure b req \<longleftrightarrow> req = Hangs \<or> (\<exists>e. req = Rejects e \<and> e \<noteq> NullError)))"
proof -
  have p0: "opt_failureThreshold opts = Some 3 \<longrightarrow>
      state (newCircuitBreaker opts) = CLOSED
      \<and> failureCount (newCircuitBreaker opts) = 0
      \<and> failureThreshold (newCircuitBreaker opts) = 3"
    by (simp add: newCircuitBreaker_def orDefault_def)
  have p1: "state b = CLOSED \<and> failureCount b = 0 \<and> failureThreshold b = 3
        \<and> countedFailure b r1 \<and> countedFailure b r2 \<and> countedFailure b r3
        \<and> r1 \<noteq> Rejects NullError \<and> r2 \<noteq> Rejects NullError \<and> r3 \<noteq> Rejects NullError \<longrightarrow>
          state (fireAll [(c1, r1)] b) = CLOSED
          \<and> state (fireAll [(c1, r1), (c2, r2)] b) = CLOSED
          \<and> state (fireAll [(c1, r1), (c2, r2), (c3, r3)] b) = OPEN"
    using three_failures_open(1)[of b r1 r2 r3 c1]
      three_failures_open(2)[of b r1 r2 r3 c1 c2]
      three_failures_open(3)[of b r1 r2 r3 c1 c2 c3]
    by blast
  have p2: "state b = OPEN \<and> lastFailureTime b = Some t \<and> t_fire clk - t \<le> resetTimeout b \<longrightarrow>
          fire clk req b = \<lparr>outcome = handleOpenCircuit b, breaker = b, calledIn = None\<rparr>
          \<and> handleOpenCircuit b
               = (case fallbackFn b of
                    None \<Rightarrow> Inl OpenCircuitError
                  | Some f \<Rightarrow> f OpenCircuitError)"
  proof
    assume h: "state b = OPEN \<and> lastFailureTime b = Some t \<and> t_fire clk - t \<le> resetTimeout b"
    then have "\<not> resetElapsed clk b"
      by (simp add: resetElapsed_def)
    with h show "fire clk req b = \<lparr>outcome = handleOpenCircuit b, breaker = b, calledIn = None\<rparr>
          \<and> handleOpenCircuit b
               = (case fallbackFn b of
                    None \<Rightarrow> Inl OpenCircuitError
                  | Some f \<Rightarrow> f OpenCircuitError)"
      by (simp add: fire_open_short_circuit handleOpenCircuit_def split: option.splits)
  qed
  have p3: "state b = OPEN \<and> lastFailureTime b = Some t \<and> t \<noteq> 0
        \<and> t_fire clk - t > resetTimeout b \<longrightarrow>
          calledIn (fire clk req b) = Some HALF_OPEN
          \<and> fire clk req b = fire clk req (toHalfOpen b)
          \<and> state (toHalfOpen b) = HALF_OPEN
          \<and> successCount (toHalfOpen b) = 0"
  proof
    assume h: "state b = OPEN \<and> lastFailureTime b = Some t \<and> t \<noteq> 0
        \<and> t_fire clk - t > resetTimeout b"
    then have "resetElapsed clk b"
      by (simp add: resetElapsed_def)
    with h fire_open_probe[of b clk req]
    show "calledIn (fire clk req b) = Some HALF_OPEN
          \<and> fire clk req b = fire clk req (toHalfOpen b)
          \<and> state (toHalfOpen b) = HALF_OPEN
          \<and> successCount (toHalfOpen b) = 0"
      by (simp add: toHalfOpen_def)
  qed
  have p4: "state b = HALF_OPEN \<and> successCount b = 0 \<and> calls \<noteq> []
        \<and> int (length calls) = successThreshold b
        \<and> (\<forall>c \<in> set calls. succeeds (snd c)) \<longrightarrow>
          state (fireAll calls b) = CLOSED
          \<and> (\<forall>n < length calls. state (fireAll (take n calls) b) = HALF_OPEN)"
  proof
    assume h: "state b = HALF_OPEN \<and> successCount b = 0 \<and> calls \<noteq> []
        \<and> int (length calls) = successThreshold b
        \<and> (\<forall>c \<in> set calls. succeeds (snd c))"
    then have closed: "state (fireAll calls b) = CLOSED"
      by (intro half_open_successes_close) simp_all
    have "state (fireAll (take n calls) b) = HALF_OPEN" if "n < length calls" for n
    proof -
      have "\<forall>c \<in> set (take n calls). succeeds (snd c)"
        using h by (meson in_set_takeD)
      moreover have "successCount b + int (length (take n calls)) < successThreshold b"
        using h that by simp
      ultimately show ?thesis
        using h half_open_successes_below[of b "take n calls"] by blast
    qed
    with closed show "state (fireAll calls b) = CLOSED
          \<and> (\<forall>n < length calls. state (fireAll (take n calls) b) = HALF_OPEN)"
      by blast
  qed
  have p5: "state b = HALF_OPEN \<and> countedFailure b req \<and> req \<noteq> Rejects NullError \<longrightarrow>
          state (breaker (fire clk req b)) = OPEN
          \<and> calledIn (fire clk req b) = Some HALF_OPEN"
    using fire_half_open_failure_state[of b req clk] fire_counted_failure(2)[of b req clk]
    by auto
  have p6: "isFailure b = defaultIsFailure \<longrightarrow>
          (countedFailure b req \<longleftrightarrow> req = Hangs \<or> (\<exists>e. req = Rejects e \<and> e \<noteq> NullError))"
    using default_counted[of b req] by blast
  from p0 p1 p2 p3 p4 p5 p6 show ?thesis
    by (intro conjI)
qed

theorem circuit_breaker_transitions_witness:
  "state (fireAll
      [(\<lparr>t_fire = 10, t_fail = 11, t_open = 12\<rparr>, Rejects (RequestError ''down'')),
       (\<lparr>t_fire = 20, t_fail = 21, t_open = 22\<rparr>, Hangs),
       (\<lparr>t_fire = 30, t_fail = 31, t_open = 32\<rparr>, Rejects (RequestError ''down''))]
      (newCircuitBreaker
         \<lparr>opt_failureThreshold = Some 3, opt_resetTimeout = Some 1000,
          opt_successThreshold = Some 2, opt_timeout = None, opt_fallback = None,
          opt_isFailure = None\<rparr> :: nat circuit_breaker)) = OPEN
   \<and> fireAll
      [(\<lparr>t_fire = 10, t_fail = 11, t_open = 12\<rparr>, Rejects (RequestError ''down'')),
       (\<lparr>t_fire = 20, t_fail = 21, t_open = 22\<rparr>, Hangs),
       (\<lparr>t_fire = 30, t_fail = 31, t_open = 32\<rparr>, Rejects (RequestError ''down''))]
      (newCircuitBreaker
         \<lparr>opt_failureThreshold = Some 3, opt_resetTimeout = Some 1000,
          opt_successThreshold = Some 2, opt_timeout = None, opt_fallback = None,
          opt_isFailure = None\<rparr> :: nat circuit_breaker)
     = toOpen 32 (newCircuitBreaker
         \<lparr>opt_failureThreshold = Some 3, opt_resetTimeout = Some 1000,
          opt_successThreshold = Some 2, opt_timeout = None, opt_fallback = None,
          opt_isFailure = None\<rparr>)
   \<and> fire \<lparr>t_fire = 1032, t_fail = 1032, t_open = 1032\<rparr> (Resolves 7)
        (toOpen 32 (newCircuitBreaker
           \<lparr>opt_failureThreshold = Some 3, opt_resetTimeout = Some 1000,
            opt_successThreshold = Some 2, opt_timeout = None, opt_fallback = None,
            opt_isFailure = None\<rparr> :: nat circuit_breaker))
      = \<lparr>outcome = Inl OpenCircuitError,
         breaker = toOpen 32 (newCircuitBreaker
           \<lparr>opt_failureThreshold = Some 3, opt_resetTimeout = Some 1000,
            opt_successThreshold = Some 2, opt_timeout = None, opt_fallback = None,
            opt_isFailure = None\<rparr>),
         calledIn = None\<rparr>
   \<and> calledIn (fire \<lparr>t_fire = 1033, t_fail = 1033, t_open = 1033\<rparr> (Resolves 7)
        (toOpen 32 (newCircuitBreaker
           \<lparr>opt_failureThreshold = Some 3, opt_resetTimeout = Some 1000,
            opt_successThreshold = Some 2, opt_timeout = None, opt_fallback = None,
            opt_isFailure = None\<rparr> :: nat circuit_breaker))) = Some HALF_OPEN
   \<and> state (fireAll
        [(\<lparr>t_fire = 1033, t_fail = 1033, t_open = 1033\<rparr>, Resolves 7),
         (\<lparr>t_fire = 1040, t_fail = 1040, t_open = 1040\<rparr>, Resolves 8)]
        (toHalfOpen (toOpen 32 (newCircuitBreaker
           \<lparr>opt_failureThreshold = Some 3, opt_resetTimeout = Some 1000,
            opt_successThreshold = Some 2, opt_timeout = None, opt_fallback = None,
            opt_isFailure = None\<rparr> :: nat circuit_breaker)))) = CLOSED
   \<and> state (breaker (fire \<lparr>t_fire = 1033, t_fail = 1034, t_open = 1035\<rparr> Hangs
        (toHalfOpen (toOpen 32 (newCircuitBreaker
           \<lparr>opt_failureThreshold = Some 3, opt_resetTimeout = Some 1000,
            opt_successThreshold = Some 2, opt_timeout = None, opt_fallback = None,
            opt_isFailure = None\<rparr> :: nat circuit_breaker))))) = OPEN"
proof -
  let ?opts = "\<lparr>opt_failureThreshold = Some 3, opt_resetTimeout = Some 1000,
          opt_successThreshold = Some 2, opt_timeout = None, opt_fallback = None,
          opt_isFailure = None\<rparr> :: nat breaker_options"
  let ?b = "newCircuitBreaker ?opts"
  let ?down = "Rejects (RequestError ''down'') :: nat behaviour"
  let ?o = "toOpen 32 ?b"
  let ?h = "toHalfOpen ?o"
  let ?calls = "[(\<lparr>t_fire = 1033, t_fail = 1033, t_open = 1033\<rparr>, Resolves 7),
         (\<lparr>t_fire = 1040, t_fail = 1040, t_open = 1040\<rparr>, Resolves (8::nat))]"
  note T = circuit_breaker_transitions
  note made = T[THEN conjunct1]
  note opens = T[THEN conjunct2, THEN conjunct1]
  note blocked = T[THEN conjunct2, THEN conjunct2, THEN conjunct1]
  note probes = T[THEN conjunct2, THEN conjunct2, THEN conjunct2, THEN conjunct1]
  note closes = T[THEN conjunct2, THEN conjunct2, THEN conjunct2, THEN conjunct2, THEN conjunct1]
  note reopens =
    T[THEN conjunct2, THEN conjunct2, THEN conjunct2, THEN conjunct2, THEN conjunct2,
      THEN conjunct1]
  note counted =
    T[THEN conjunct2, THEN conjunct2, THEN conjunct2, THEN conjunct2, THEN conjunct2,
      THEN conjunct2]
  have start: "state ?b = CLOSED \<and> failureCount ?b = 0 \<and> failureThreshold ?b = 3"
    using made[of ?opts] by simp
  have dflt: "isFailure ?b = defaultIsFailure"
    by (simp add: newCircuitBreaker_def)
  have f1: "countedFailure ?b ?down" and f2: "countedFailure ?b Hangs"
    using dflt counted[of ?b ?down] counted[of ?b Hangs] by simp_all
  have nn: "?down \<noteq> Rejects NullError" "(Hangs :: nat behaviour) \<noteq> Rejects NullError"
    by simp_all
  have w1: "state (fireAll
      [(\<lparr>t_fire = 10, t_fail = 11, t_open = 12\<rparr>, ?down),
       (\<lparr>t_fire = 20, t_fail = 21, t_open = 22\<rparr>, Hangs),
       (\<lparr>t_fire = 30, t_fail = 31, t_open = 32\<rparr>, ?down)] ?b) = OPEN"
    using start f1 f2 nn
      opens[of ?b ?down Hangs ?down
        "\<lparr>t_fire = 10, t_fail = 11, t_open = 12\<rparr>" "\<lparr>t_fire = 20, t_fail = 21, t_open = 22\<rparr>"
        "\<lparr>t_fire = 30, t_fail = 31, t_open = 32\<rparr>"]
    by blast
  have o: "state ?o = OPEN \<and> lastFailureTime ?o = Some 32 \<and> resetTimeout ?o = 1000
      \<and> fallbackFn ?o = None"
    by (simp add: toOpen_def newCircuitBreaker_def orDefault_def)
  have w2: "fire \<lparr>t_fire = 1032, t_fail = 1032, t_open = 1032\<rparr> (Resolves 7) ?o
      = \<lparr>outcome = Inl OpenCircuitError, breaker = ?o, calledIn = None\<rparr>"
    using o blocked[of ?o 32 "\<lparr>t_fire = 1032, t_fail = 1032, t_open = 1032\<rparr>" "Resolves 7"]
    by simp
  have w3: "calledIn (fire \<lparr>t_fire = 1033, t_fail = 1033, t_open = 1033\<rparr> (Resolves 7) ?o)
      = Some HALF_OPEN"
  proof -
    have "state ?o = OPEN \<and> lastFailureTime ?o = Some 32 \<and> (32::int) \<noteq> 0
        \<and> t_fire \<lparr>t_fire = 1033, t_fail = 1033, t_open = 1033\<rparr> - 32 > resetTimeout ?o"
      using o by simp
    then show ?thesis
      using probes[of ?o 32 "\<lparr>t_fire = 1033, t_fail = 1033, t_open = 1033\<rparr>" "Resolves 7"]
      by blast
  qed
  have h: "state ?h = HALF_OPEN \<and> successCount ?h = 0 \<and> successThreshold ?h = 2
      \<and> isFailure ?h = defaultIsFailure"
    by (simp add: toHalfOpen_def toOpen_def newCircuitBreaker_def orDefault_def)
  have ok: "?calls \<noteq> [] \<and> int (length ?calls) = successThreshold ?h
      \<and> (\<forall>c \<in> set ?calls. succeeds (snd c))"
    using h by (simp add: succeeds_def)
  have w4: "state (fireAll ?calls ?h) = CLOSED"
    using h ok closes[of ?h ?calls] by blast
  have f3: "countedFailure ?h Hangs"
    using h counted[of ?h Hangs] by simp
  have w5: "state (breaker (fire \<lparr>t_fire = 1033, t_fail = 1034, t_open = 1035\<rparr> Hangs ?h)) = OPEN"
    using h f3 nn reopens[of ?h Hangs "\<lparr>t_fire = 1033, t_fail = 1034, t_open = 1035\<rparr>"]
    by blast
  have link: "fireAll
      [(\<lparr>t_fire = 10, t_fail = 11, t_open = 12\<rparr>, ?down),
       (\<lparr>t_fire = 20, t_fail = 21, t_open = 22\<rparr>, Hangs),
       (\<lparr>t_fire = 30, t_fail = 31, t_open = 32\<rparr>, ?down)] ?b = ?o"
    by (simp add: fire_def handleFailure_def fallbackOrThrow_def executeWithTimeout_def
        toOpen_def newCircuitBreaker_def orDefault_def defaultIsFailure_def Let_def)
  from w1 link w2 w3 w4 w5 show ?thesis
    by (intro conjI)
qed

text \<open>
  The claim as it is written fails for a failure the classifier does not count: with
  the default classifier, three consecutive calls that reject with \<^verbatim>\<open>null\<close> fail (the
  caller gets the thrown value) and leave a breaker with \<^verbatim>\<open>failureThreshold: 3\<close> closed,
  and such a failing call in half-open leaves it half-open. And a call made when
  exactly \<^verbatim>\<open>resetTimeout\<close> has passed since the last failure is still short-circuited:
  the code compares with \<^verbatim>\<open>>\<close>.
\<close>

theorem circuit_breaker_uncounted_failure_counterexample:
  "\<not> succeeds (Rejects NullError :: nat behaviour)
   \<and> outcome (fire \<lparr>t_fire = 10, t_fail = 11, t_open = 12\<rparr> (Rejects NullError)
        (newCircuitBreaker
           \<lparr>opt_failureThreshold = Some 3, opt_resetTimeout = Some 1000,
            opt_successThreshold = Some 2, opt_timeout = None, opt_fallback = None,
            opt_isFailure = None\<rparr> :: nat circuit_breaker)) = Inl NullError
   \<and> state (fireAll
        [(\<lparr>t_fire = 10, t_fail = 11, t_open = 12\<rparr>, Rejects NullError),
         (\<lparr>t_fire = 20, t_fail = 21, t_open = 22\<rparr>, Rejects NullError),
         (\<lparr>t_fire = 30, t_fail = 31, t_open = 32\<rparr>, Rejects NullError)]
        (newCircuitBreaker
           \<lparr>opt_failureThreshold = Some 3, opt_resetTimeout = Some 1000,
            opt_successThreshold = Some 2, opt_timeout = None, opt_fallback = None,
            opt_isFailure = None\<rparr> :: nat circuit_breaker)) = CLOSED
   \<and> state (breaker (fire \<lparr>t_fire = 1033, t_fail = 1034, t_open = 1035\<rparr> (Rejects NullError)
        (toHalfOpen (toOpen 32 (newCircuitBreaker
           \<lparr>opt_failureThreshold = Some 3, opt_resetTimeout = Some 1000,
            opt_successThreshold = Some 2, opt_timeout = None, opt_fallback = None,
            opt_isFailure = None\<rparr> :: nat circuit_breaker))))) = HALF_OPEN
   \<and> calledIn (fire \<lparr>t_fire = 1032, t_fail = 1032, t_open = 1032\<rparr> (Resolves 7)
        (toOpen 32 (newCircuitBreaker
           \<lparr>opt_failureThreshold = Some 3, opt_resetTimeout = Some 1000,
            opt_successThreshold = Some 2, opt_timeout = None, opt_fallback = None,
            opt_isFailure = None\<rparr> :: nat circuit_breaker))) = None"
  by (simp add: succeeds_def resetElapsed_def fire_def handleFailure_def fallbackOrThrow_def executeWithTimeout_def
      toOpen_def toHalfOpen_def newCircuitBreaker_def orDefault_def defaultIsFailure_def Let_def)


end
